theory Spec2Isabelle
  imports Complex_Main "HOL-Library.Word" "HOL-Library.Sublist"
begin

unbundle bit_operations_syntax

section \<open>The JavaScript values the program works on\<close>

text \<open>
  A JavaScript string is a sequence of 16-bit code units; \<open>length\<close>, \<open>substring\<close>,
  \<open>lastIndexOf\<close> and \<open>padEnd\<close> all count code units. A \<open>Uint8Array\<close> is a list of bytes.
  \<open>str\<close> writes a string literal of the source.
\<close>

type_synonym jsstring = "16 word list"
type_synonym byte = "8 word"

definition str :: "string \<Rightarrow> jsstring" where
  "str s = map of_char s"

text \<open>
  \<open>String.prototype.trim\<close> removes the ECMAScript white space and line terminator code
  units from both ends.
\<close>

definition is_whitespace :: "16 word \<Rightarrow> bool" where
  "is_whitespace c \<longleftrightarrow>
     (9 \<le> c \<and> c \<le> 13) \<or> c = 32 \<or> c = 160 \<or> c = 0x1680 \<or> (0x2000 \<le> c \<and> c \<le> 0x200A) \<or>
     c = 0x2028 \<or> c = 0x2029 \<or> c = 0x202F \<or> c = 0x205F \<or> c = 0x3000 \<or> c = 0xFEFF"

definition trimStart :: "jsstring \<Rightarrow> jsstring" where
  "trimStart s = dropWhile is_whitespace s"

definition trim :: "jsstring \<Rightarrow> jsstring" where
  "trim s = rev (dropWhile is_whitespace (rev (dropWhile is_whitespace s)))"

text \<open>
  \<open>String.prototype.toUpperCase\<close> follows the case tables of the Unicode standard, which
  are no part of the repository: the extractor takes the function as a parameter, and what
  is proved of it holds whatever the tables say. On a string of ASCII code units
  \<open>toUpperCase\<close> maps the letters a to z to A to Z and nothing else; \<open>toUpperCase_ascii\<close>
  is that, and the example inputs, whose texts are ASCII, are evaluated with it.
\<close>

definition toUpperCase_ascii :: "jsstring \<Rightarrow> jsstring" where
  "toUpperCase_ascii s = map (\<lambda>c. if 97 \<le> c \<and> c \<le> 122 then c - 32 else c) s"

text \<open>\<open>s.includes(p)\<close>: \<open>p\<close> occurs in \<open>s\<close> as a contiguous run.\<close>

fun includes_js :: "jsstring \<Rightarrow> jsstring \<Rightarrow> bool" where
  "includes_js [] p = (p = [])"
| "includes_js (c # s) p = (prefix p (c # s) \<or> includes_js s p)"

text \<open>
  \<open>s.split(sep)[0]\<close> for a one-unit separator: the text before the first separator
  (the whole string when there is none).
\<close>

definition split_first :: "16 word \<Rightarrow> jsstring \<Rightarrow> jsstring" where
  "split_first sep s = takeWhile (\<lambda>c. c \<noteq> sep) s"

text \<open>\<open>s.split(sep)\<close> for a one-unit separator.\<close>

fun split_on :: "16 word \<Rightarrow> jsstring \<Rightarrow> jsstring list" where
  "split_on sep [] = [[]]"
| "split_on sep (c # s) =
     (if c = sep then [] # split_on sep s
      else (case split_on sep s of [] \<Rightarrow> [[c]] | l # ls \<Rightarrow> (c # l) # ls))"

text \<open>\<open>s.repeat(n)\<close>, \<open>s.padEnd(n)\<close> and \<open>s.padStart(n)\<close> (padding with spaces).\<close>

definition repeat :: "jsstring \<Rightarrow> nat \<Rightarrow> jsstring" where
  "repeat s n = concat (replicate n s)"

definition padEnd :: "jsstring \<Rightarrow> nat \<Rightarrow> jsstring" where
  "padEnd s n = s @ replicate (n - length s) 32"

definition padStart :: "jsstring \<Rightarrow> nat \<Rightarrow> jsstring" where
  "padStart s n = replicate (n - length s) 32 @ s"

text \<open>\<open>s.lastIndexOf(' ')\<close>: \<open>None\<close> stands for the result -1.\<close>

fun lastIndexOf :: "jsstring \<Rightarrow> 16 word \<Rightarrow> nat option" where
  "lastIndexOf [] c = None"
| "lastIndexOf (x # xs) c =
     (case lastIndexOf xs c of
        Some i \<Rightarrow> Some (Suc i)
      | None \<Rightarrow> if x = c then Some 0 else None)"

subsection \<open>Numbers\<close>

text \<open>
  A JavaScript number is an IEEE 754 binary64 value. The finite ones are rationals;
  \<open>Fin 0\<close> stands for both zeros (no operation of the program tells them apart:
  \<open>toFixed\<close>, \<open>Math.abs\<close>, \<open>+\<close>, \<open>>\<close>, \<open><\<close> and \<open>||\<close> treat -0 as 0).
\<close>

datatype jsnum = NaN | PosInf | NegInf | Fin rat

fun bit_length :: "nat \<Rightarrow> nat" where
  "bit_length n = (if n = 0 then 0 else Suc (bit_length (n div 2)))"

declare bit_length.simps [simp del]

definition pow2 :: "int \<Rightarrow> rat" where
  "pow2 e = (if 0 \<le> e then 2 ^ nat e else 1 / 2 ^ nat (- e))"

definition pow10 :: "int \<Rightarrow> rat" where
  "pow10 e = (if 0 \<le> e then 10 ^ nat e else 1 / 10 ^ nat (- e))"

text \<open>For \<open>a > 0\<close>, the integer \<open>e\<close> with \<open>2 ^ e \<le> a < 2 ^ (e + 1)\<close>.\<close>

definition floor_log2 :: "rat \<Rightarrow> int" where
  "floor_log2 a =
     (if 1 \<le> a then int (bit_length (nat \<lfloor>a\<rfloor>)) - 1
      else let d = - int (bit_length (nat \<lfloor>1 / a\<rfloor>))
           in if pow2 (d + 1) \<le> a then d + 1 else d)"

definition round_half_even :: "rat \<Rightarrow> int" where
  "round_half_even x =
     (let n = \<lfloor>x\<rfloor>; f = x - of_int n
      in if f < 1 / 2 then n else if 1 / 2 < f then n + 1 else if even n then n else n + 1)"

text \<open>
  The Number value for a mathematical value: round to nearest binary64, ties to even
  (53-bit significand, least exponent -1074, overflow from \<open>2 ^ 1024\<close> on).
\<close>

definition binary64 :: "rat \<Rightarrow> jsnum" where
  "binary64 r =
     (if r = 0 then Fin 0
      else let a = \<bar>r\<bar>;
               q = max (floor_log2 a - 52) (- 1074);
               v = of_int (round_half_even (a / pow2 q)) * pow2 q
           in if 2 ^ 1024 \<le> v then (if r < 0 then NegInf else PosInf)
              else Fin (if r < 0 then - v else v))"

fun jsadd :: "jsnum \<Rightarrow> jsnum \<Rightarrow> jsnum" where
  "jsadd NaN _ = NaN"
| "jsadd _ NaN = NaN"
| "jsadd PosInf NegInf = NaN"
| "jsadd NegInf PosInf = NaN"
| "jsadd PosInf _ = PosInf"
| "jsadd _ PosInf = PosInf"
| "jsadd NegInf _ = NegInf"
| "jsadd _ NegInf = NegInf"
| "jsadd (Fin a) (Fin b) = binary64 (a + b)"

fun jsmul :: "jsnum \<Rightarrow> jsnum \<Rightarrow> jsnum" where
  "jsmul NaN _ = NaN"
| "jsmul _ NaN = NaN"
| "jsmul (Fin a) (Fin b) = binary64 (a * b)"
| "jsmul (Fin a) PosInf = (if a = 0 then NaN else if 0 < a then PosInf else NegInf)"
| "jsmul (Fin a) NegInf = (if a = 0 then NaN else if 0 < a then NegInf else PosInf)"
| "jsmul PosInf (Fin b) = (if b = 0 then NaN else if 0 < b then PosInf else NegInf)"
| "jsmul NegInf (Fin b) = (if b = 0 then NaN else if 0 < b then NegInf else PosInf)"
| "jsmul PosInf PosInf = PosInf"
| "jsmul NegInf NegInf = PosInf"
| "jsmul PosInf NegInf = NegInf"
| "jsmul NegInf PosInf = NegInf"

text \<open>\<open>a < b\<close> on numbers; false whenever a side is NaN. \<open>a > b\<close> is \<open>jslt b a\<close>.\<close>

fun jslt :: "jsnum \<Rightarrow> jsnum \<Rightarrow> bool" where
  "jslt NaN _ = False"
| "jslt _ NaN = False"
| "jslt (Fin a) (Fin b) = (a < b)"
| "jslt NegInf NegInf = False"
| "jslt NegInf _ = True"
| "jslt _ NegInf = False"
| "jslt PosInf _ = False"
| "jslt _ PosInf = True"

fun Math_abs :: "jsnum \<Rightarrow> jsnum" where
  "Math_abs NaN = NaN"
| "Math_abs PosInf = PosInf"
| "Math_abs NegInf = PosInf"
| "Math_abs (Fin a) = Fin \<bar>a\<bar>"

fun isNaN :: "jsnum \<Rightarrow> bool" where
  "isNaN NaN = True"
| "isNaN _ = False"

text \<open>Truthiness of a number, as \<open>||\<close> tests it: 0 and NaN are falsy.\<close>

fun truthy :: "jsnum \<Rightarrow> bool" where
  "truthy NaN = False"
| "truthy (Fin a) = (a \<noteq> 0)"
| "truthy _ = True"

subsection \<open>parseFloat\<close>

definition is_digit :: "16 word \<Rightarrow> bool" where
  "is_digit c \<longleftrightarrow> 48 \<le> c \<and> c \<le> 57"

definition digits_val :: "jsstring \<Rightarrow> nat" where
  "digits_val ds = foldl (\<lambda>n c. 10 * n + (unat c - 48)) 0 ds"

text \<open>
  The value of the exponent part a text starts with (\<open>e\<close> or \<open>E\<close>, an optional sign, at
  least one digit), 0 when it starts with none.
\<close>

definition parse_exponent :: "jsstring \<Rightarrow> int" where
  "parse_exponent s =
     (case s of
        [] \<Rightarrow> 0
      | c # t \<Rightarrow>
          if c = 101 \<or> c = 69 then
            (case t of
               [] \<Rightarrow> 0
             | sg # u \<Rightarrow>
                 if (sg = 43 \<or> sg = 45) \<and> takeWhile is_digit u \<noteq> [] then
                   (if sg = 45 then - int (digits_val (takeWhile is_digit u))
                    else int (digits_val (takeWhile is_digit u)))
                 else int (digits_val (takeWhile is_digit t)))
          else 0)"

text \<open>
  The mathematical value of the longest prefix that is an unsigned decimal literal
  (digits, an optional fraction, an optional exponent); \<open>None\<close> when no prefix is one.
\<close>

definition parse_unsigned :: "jsstring \<Rightarrow> rat option" where
  "parse_unsigned s =
     (let ip = takeWhile is_digit s; r1 = dropWhile is_digit s
      in case r1 of
           [] \<Rightarrow> if ip = [] then None else Some (of_nat (digits_val ip))
         | c # r2 \<Rightarrow>
             if c = 46 then
               (let fp = takeWhile is_digit r2; r3 = dropWhile is_digit r2
                in if ip = [] \<and> fp = [] then None
                   else Some ((of_nat (digits_val ip) + of_nat (digits_val fp) / 10 ^ length fp)
                              * pow10 (parse_exponent r3)))
             else if ip = [] then None
             else Some (of_nat (digits_val ip) * pow10 (parse_exponent r1)))"

definition parse_magnitude :: "bool \<Rightarrow> jsstring \<Rightarrow> jsnum" where
  "parse_magnitude neg s =
     (if prefix (str ''Infinity'') s then (if neg then NegInf else PosInf)
      else case parse_unsigned s of
             None \<Rightarrow> NaN
           | Some v \<Rightarrow> binary64 (if neg then - v else v))"

definition parseFloat :: "jsstring \<Rightarrow> jsnum" where
  "parseFloat s =
     (case trimStart s of
        [] \<Rightarrow> NaN
      | c # t \<Rightarrow>
          if c = 45 then parse_magnitude True t
          else if c = 43 then parse_magnitude False t
          else parse_magnitude False (c # t))"

subsection \<open>Number to string\<close>

fun decimal :: "nat \<Rightarrow> jsstring" where
  "decimal n = (if n < 10 then [of_nat (48 + n)] else decimal (n div 10) @ [of_nat (48 + n mod 10)])"

declare decimal.simps [simp del]

text \<open>
  \<open>Number.prototype.toString\<close> on a finite value \<open>x\<close> of at least \<open>10 ^ 21\<close>. The
  standard asks for integers \<open>n\<close>, \<open>k\<close> and \<open>s\<close> with \<open>k \<ge> 1\<close>,
  \<open>10 ^ (k - 1) \<le> s < 10 ^ k\<close>, such that \<open>s * 10 ^ (n - k)\<close> reads back as \<open>x\<close>, with \<open>k\<close>
  as small as possible (and then \<open>s * 10 ^ (n - k)\<close> as close to \<open>x\<close> as possible), and
  prints the digits of \<open>s\<close>, a point after the first when there are more, and \<open>e+\<close> with
  \<open>n - 1\<close>. \<open>n\<close> is the number of digits of \<open>x\<close>, or one more when the digits round up to
  a power of ten (the binary64 nearest to \<open>10 ^ 23\<close> is below it and prints as \<open>1e+23\<close>).
\<close>

definition digit_candidates :: "rat \<Rightarrow> nat \<Rightarrow> nat \<Rightarrow> (nat \<times> nat) list" where
  "digit_candidates x n k =
     (let lo = nat \<lfloor>x / 10 ^ (n - k)\<rfloor>
      in map (\<lambda>s. (s, n))
           (filter (\<lambda>s. 10 ^ (k - 1) \<le> s \<and> s < 10 ^ k
                        \<and> binary64 (of_nat s * 10 ^ (n - k)) = Fin x)
              [lo, lo + 1]))"

definition nearer :: "rat \<Rightarrow> nat \<Rightarrow> nat \<times> nat \<Rightarrow> nat \<times> nat \<Rightarrow> nat \<times> nat" where
  "nearer x k a b =
     (if \<bar>of_nat (fst a) * 10 ^ (snd a - k) - x\<bar> \<le> \<bar>of_nat (fst b) * 10 ^ (snd b - k) - x\<bar>
      then a else b)"

text \<open>
  The search for the least \<open>k\<close>, from \<open>k\<close> on; 17 digits always read back, so the fuel of
  \<open>exponent_notation\<close> never runs out. The result is \<open>(s, n)\<close>.
\<close>

fun shortest_digits :: "rat \<Rightarrow> nat \<Rightarrow> nat \<Rightarrow> nat \<Rightarrow> nat \<times> nat" where
  "shortest_digits x n k fuel =
     (case digit_candidates x n k @ digit_candidates x (n + 1) k of
        c # cs \<Rightarrow> foldl (nearer x k) c cs
      | [] \<Rightarrow>
          (case fuel of
             0 \<Rightarrow> (nat \<lfloor>x / 10 ^ (n - k)\<rfloor>, n)
           | Suc f \<Rightarrow> shortest_digits x n (k + 1) f))"

definition exponent_notation :: "rat \<Rightarrow> jsstring" where
  "exponent_notation x =
     (let (s, n) = shortest_digits x (length (decimal (nat \<lfloor>x\<rfloor>))) 1 16;
          ds = decimal s
      in (if length ds = 1 then ds else take 1 ds @ str ''.'' @ drop 1 ds)
         @ str ''e+'' @ decimal (n - 1))"

text \<open>\<open>x.toFixed(f)\<close>, for \<open>f\<close> from 0 to 100.\<close>

definition toFixed :: "jsnum \<Rightarrow> nat \<Rightarrow> jsstring" where
  "toFixed x f =
     (case x of
        NaN \<Rightarrow> str ''NaN''
      | PosInf \<Rightarrow> str ''Infinity''
      | NegInf \<Rightarrow> str ''-Infinity''
      | Fin r \<Rightarrow>
          (let s = (if r < 0 then str ''-'' else []); a = \<bar>r\<bar>
           in if 10 ^ 21 \<le> a then s @ exponent_notation a
              else let m0 = decimal (nat \<lfloor>a * 10 ^ f + 1 / 2\<rfloor>);
                       m = (if f \<noteq> 0 \<and> length m0 \<le> f then replicate (f + 1 - length m0) 48 @ m0
                            else m0)
                   in if f = 0 then s @ m
                      else s @ take (length m - f) m @ str ''.'' @ drop (length m - f) m))"

text \<open>\<open>Math.round\<close>: the nearest integer, ties towards plus infinity.\<close>

fun Math_round :: "jsnum \<Rightarrow> jsnum" where
  "Math_round (Fin a) = Fin (of_int \<lfloor>a + 1 / 2\<rfloor>)"
| "Math_round x = x"

text \<open>
  \<open>a / b\<close>. The program divides non-negative sizes only, so a zero divisor is +0.
\<close>

fun jsdiv :: "jsnum \<Rightarrow> jsnum \<Rightarrow> jsnum" where
  "jsdiv NaN _ = NaN"
| "jsdiv _ NaN = NaN"
| "jsdiv (Fin a) (Fin b) =
     (if b = 0 then (if a = 0 then NaN else if 0 < a then PosInf else NegInf)
      else binary64 (a / b))"
| "jsdiv (Fin a) _ = Fin 0"
| "jsdiv PosInf (Fin b) = (if 0 \<le> b then PosInf else NegInf)"
| "jsdiv NegInf (Fin b) = (if 0 \<le> b then NegInf else PosInf)"
| "jsdiv _ _ = NaN"

section \<open>The document extractor (parseTallyXML.js)\<close>

subsection \<open>The DOM\<close>

text \<open>
  What \<open>DOMParser.parseFromString\<close> returns: a tree of elements and text. The parser
  itself belongs to the browser and is a parameter of \<open>parseTallyXML\<close>; a text
  that is not well-formed XML comes back as a document holding a \<open>parsererror\<close> element.
\<close>

datatype node = Element jsstring "node list" | Text jsstring

fun textContent :: "node \<Rightarrow> jsstring" where
  "textContent (Text s) = s"
| "textContent (Element t cs) = concat (map textContent cs)"

text \<open>
  The elements of a subtree in document order, the root of the subtree first, each with
  the tags of its ancestors (nearest first, on top of \<open>anc\<close>).
\<close>

fun elements :: "jsstring list \<Rightarrow> node \<Rightarrow> (jsstring list \<times> node) list" where
  "elements anc (Text s) = []"
| "elements anc (Element t cs) = (anc, Element t cs) # concat (map (elements (t # anc)) cs)"

text \<open>The descendants of an element: what \<open>node.querySelectorAll\<close> searches.\<close>

fun descendants :: "node \<Rightarrow> (jsstring list \<times> node) list" where
  "descendants (Text s) = []"
| "descendants (Element t cs) = concat (map (elements [t]) cs)"

text \<open>
  A selector of the program is a tag name or a chain \<open>A > B > C\<close> of tag names, written
  as the list of its tags. An element matches when its tag is the last one and its
  parents carry the ones before.
\<close>

fun matches :: "jsstring list \<Rightarrow> jsstring list \<times> node \<Rightarrow> bool" where
  "matches sel (anc, Element t cs) = prefix (rev sel) (t # anc)"
| "matches sel (anc, Text s) = False"

definition querySelectorAll :: "jsstring list \<Rightarrow> node \<Rightarrow> node list" where
  "querySelectorAll sel n = map snd (filter (matches sel) (descendants n))"

definition querySelector :: "jsstring list \<Rightarrow> node \<Rightarrow> node option" where
  "querySelector sel n = (case querySelectorAll sel n of [] \<Rightarrow> None | e # _ \<Rightarrow> Some e)"

text \<open>\<open>xmlDoc.querySelector\<close>: the search starts at the document and covers its root.\<close>

definition doc_querySelector :: "jsstring list \<Rightarrow> node \<Rightarrow> node option" where
  "doc_querySelector sel doc =
     (case filter (matches sel) (elements [] doc) of [] \<Rightarrow> None | e # _ \<Rightarrow> Some (snd e))"

text \<open>\<open>get(tag, node)\<close> and \<open>getAll(tag, node)\<close> of the source.\<close>

definition get :: "jsstring \<Rightarrow> node \<Rightarrow> jsstring" where
  "get tag n = (case querySelector [tag] n of None \<Rightarrow> [] | Some e \<Rightarrow> trim (textContent e))"

definition getAll :: "jsstring list \<Rightarrow> node \<Rightarrow> node list" where
  "getAll sel n = querySelectorAll sel n"

subsection \<open>The Invoice\<close>

text \<open>
  The object \<open>parseTallyXML\<close> returns. A field the code generator reads and the extractor
  never sets (\<open>company.address\<close>, \<open>company.phone\<close>, \<open>amountInWords\<close>,
  \<open>termsAndConditions\<close>, \<open>authorizedSignatory\<close>) is an option; so is \<open>sNo\<close>, which an
  item gets only after the list is final. Field names that would clash are prefixed
  (\<open>item_name\<close> is \<open>name\<close> of an item, \<open>grand_total\<close> is \<open>totals.total\<close>).
\<close>

record item =
  item_name :: jsstring
  qty :: jsstring
  rate :: jsstring
  amount :: jsstring
  sNo :: "nat option"

record company =
  company_name :: jsstring
  company_gstin :: jsstring
  company_address :: "jsstring option"
  company_phone :: "jsstring option"

record order_info =
  number :: jsstring
  date :: jsstring
  user :: jsstring

record party =
  party_name :: jsstring
  party_address :: jsstring
  party_gstin :: jsstring

record totals =
  subtotal :: jsstring
  igst :: jsstring
  cgst :: jsstring
  sgst :: jsstring
  grand_total :: jsstring

record invoice =
  heading :: jsstring
  company :: company
  order_info :: order_info
  party :: party
  items :: "item list"
  totals :: totals
  narration :: jsstring
  amountInWords :: "jsstring option"
  termsAndConditions :: "jsstring option"
  authorizedSignatory :: "jsstring option"

subsection \<open>Extraction\<close>

text \<open>\<open>xmlString.replace(/&#4;/g, '')\<close>.\<close>

function remove_entity :: "jsstring \<Rightarrow> jsstring" where
  "remove_entity [] = []"
| "remove_entity (c # s) =
     (if prefix (str ''&#4;'') (c # s) then remove_entity (drop 3 s) else c # remove_entity s)"
  by pat_completeness auto
termination
  by (relation "measure length") auto

text \<open>\<open>arr.join('\n')\<close>.\<close>

fun join_lines :: "jsstring list \<Rightarrow> jsstring" where
  "join_lines [] = []"
| "join_lines [l] = l"
| "join_lines (l # ls) = l @ [10] @ join_lines ls"

text \<open>\<open>parseFloat(s || 0)\<close>: the empty string gives way to the number 0.\<close>

definition parseFloat_or_0 :: "jsstring \<Rightarrow> jsnum" where
  "parseFloat_or_0 s = (if s = [] then Fin 0 else parseFloat s)"

definition parseQty :: "jsstring \<Rightarrow> jsstring" where
  "parseQty qtyStr =
     (let q = split_first 32 (trim qtyStr) in if isNaN (parseFloat q) then str ''0'' else q)"

definition parse_entry :: "node \<Rightarrow> item" where
  "parse_entry el =
     \<lparr>item_name = get (str ''STOCKITEMNAME'') el,
      qty = parseQty (get (str ''ACTUALQTY'') el),
      rate = toFixed (parseFloat_or_0 (split_first 47 (get (str ''RATE'') el))) 2,
      amount = toFixed (Math_abs (parseFloat_or_0 (get (str ''AMOUNT'') el))) 2,
      sNo = None\<rparr>"

definition parseItemsFromList :: "node list \<Rightarrow> item list" where
  "parseItemsFromList listElements = (if listElements = [] then [] else map parse_entry listElements)"

text \<open>The voucher-type dependent choice of the entry lists (lines 55 to 89).\<close>

definition select_items :: "jsstring \<Rightarrow> jsstring \<Rightarrow> node \<Rightarrow> item list" where
  "select_items voucherTypeName objView voucher =
     (let allInventoryEntries = getAll [str ''ALLINVENTORYENTRIES.LIST''] voucher;
          inventoryEntriesIn = getAll [str ''INVENTORYENTRIESIN.LIST''] voucher;
          inventoryEntriesOut = getAll [str ''INVENTORYENTRIESOUT.LIST''] voucher
      in if includes_js voucherTypeName (str ''STOCK JOURNAL'')
            \<or> includes_js objView (str ''CONSUMPTION VOUCHER VIEW'')
         then parseItemsFromList inventoryEntriesOut
         else if includes_js voucherTypeName (str ''SALES ORDER'')
                 \<or> includes_js voucherTypeName (str ''SALES'')
         then (let its = parseItemsFromList allInventoryEntries
               in if length its = 0 then parseItemsFromList inventoryEntriesOut else its)
         else if includes_js voucherTypeName (str ''MATERIAL OUT'')
                 \<or> includes_js voucherTypeName (str ''DELIVERY'')
         then (let its = parseItemsFromList inventoryEntriesOut
               in if length its = 0 then parseItemsFromList allInventoryEntries else its)
         else parseItemsFromList allInventoryEntries @ parseItemsFromList inventoryEntriesIn
              @ parseItemsFromList inventoryEntriesOut)"

text \<open>\<open>items.forEach((item, index) => { item.sNo = index + 1 })\<close>.\<close>

definition assign_sNo :: "item list \<Rightarrow> item list" where
  "assign_sNo its = map (\<lambda>(index, it). it\<lparr>sNo := Some (index + 1)\<rparr>) (enumerate 0 its)"

text \<open>\<open>items.reduce((sum, i) => sum + parseFloat(i.amount), 0)\<close>.\<close>

definition sum_amounts :: "item list \<Rightarrow> jsnum" where
  "sum_amounts its = foldl (\<lambda>sum i. jsadd sum (parseFloat (amount i))) (Fin 0) its"

definition findAmount :: "node list \<Rightarrow> jsstring \<Rightarrow> jsnum" where
  "findAmount ledgerEntries ledgerName =
     (case find (\<lambda>n. get (str ''LEDGERNAME'') n = ledgerName) ledgerEntries of
        None \<Rightarrow> Fin 0
      | Some entry \<Rightarrow>
          (case querySelector [str ''AMOUNT''] entry of
             None \<Rightarrow> Fin 0
           | Some a \<Rightarrow> parseFloat_or_0 (textContent a)))"

definition choose_heading :: "jsstring \<Rightarrow> jsstring" where
  "choose_heading voucherTypeName =
     (if includes_js voucherTypeName (str ''SALES ORDER'') then str ''SALES ORDER''
      else if includes_js voucherTypeName (str ''MATERIAL OUT'')
              \<or> includes_js voucherTypeName (str ''DELIVERY'') then str ''MATERIAL CHALLAN''
      else if includes_js voucherTypeName (str ''SALES'') then str ''SALES INVOICE''
      else if includes_js voucherTypeName (str ''STOCK JOURNAL'') then str ''STOCK JOURNAL''
      else str ''DOCUMENT'')"

text \<open>\<open>d.slice(a, b)\<close> for \<open>0 \<le> a \<le> b\<close>, and \<open>formatDate\<close>.\<close>

definition slice :: "jsstring \<Rightarrow> nat \<Rightarrow> nat \<Rightarrow> jsstring" where
  "slice d a b = take (b - a) (drop a d)"

definition formatDate :: "jsstring \<Rightarrow> jsstring" where
  "formatDate d =
     (if d = [] then [] else slice d 6 8 @ str ''-'' @ slice d 4 6 @ str ''-'' @ slice d 0 4)"

text \<open>
  The body of \<open>parseTallyXML\<close> once the voucher element is found (lines 19 to 147);
  \<open>toUpperCase\<close> is the parameter.
\<close>

definition extract_invoice :: "(jsstring \<Rightarrow> jsstring) \<Rightarrow> node \<Rightarrow> node \<Rightarrow> invoice" where
  "extract_invoice toUpperCase xmlDoc voucher =
     (let companyName =
            (case doc_querySelector [str ''REQUESTDESC'', str ''STATICVARIABLES'', str ''SVCURRENTCOMPANY''] xmlDoc of
               None \<Rightarrow> []
             | Some e \<Rightarrow> trim (textContent e));
          address = join_lines (map (\<lambda>a. trim (textContent a))
                      (getAll [str ''BASICBUYERADDRESS.LIST'', str ''BASICBUYERADDRESS''] voucher));
          voucherTypeName = toUpperCase (get (str ''VOUCHERTYPENAME'') voucher);
          objView = toUpperCase (get (str ''OBJVIEW'') voucher);
          its = assign_sNo (select_items voucherTypeName objView voucher);
          sub = sum_amounts its;
          ledgerEntries = getAll [str ''LEDGERENTRIES.LIST''] voucher;
          igst_v = findAmount ledgerEntries (str ''IGST'');
          cgst_v = findAmount ledgerEntries (str ''CGST'');
          sgst_v = (if truthy (findAmount ledgerEntries (str ''SGST''))
                    then findAmount ledgerEntries (str ''SGST'')
                    else findAmount ledgerEntries (str ''SGST/UTGST''));
          tot = (case find (\<lambda>n. get (str ''ISPARTYLEDGER'') n = str ''Yes'') ledgerEntries of
                   Some partyAmountEntry \<Rightarrow>
                     toFixed (Math_abs (parseFloat_or_0 (get (str ''AMOUNT'') partyAmountEntry))) 2
                 | None \<Rightarrow> toFixed sub 2)
      in \<lparr>heading = choose_heading voucherTypeName,
          company = \<lparr>company_name = companyName, company_gstin = get (str ''CMPGSTIN'') voucher,
                     company_address = None, company_phone = None\<rparr>,
          order_info = \<lparr>number = get (str ''VOUCHERNUMBER'') voucher,
                        date = formatDate (get (str ''DATE'') voucher),
                        user = get (str ''ENTEREDBY'') voucher\<rparr>,
          party = \<lparr>party_name = get (str ''PARTYNAME'') voucher, party_address = address,
                   party_gstin = get (str ''PARTYGSTIN'') voucher\<rparr>,
          items = its,
          totals = \<lparr>subtotal = toFixed sub 2, igst = toFixed igst_v 2, cgst = toFixed cgst_v 2,
                    sgst = toFixed sgst_v 2, grand_total = tot\<rparr>,
          narration = get (str ''NARRATION'') voucher,
          amountInWords = None, termsAndConditions = None, authorizedSignatory = None\<rparr>)"

text \<open>
  \<open>parseTallyXML\<close>: \<open>None\<close> is the \<open>null\<close> of the \<open>catch\<close> block, reached by the two
  \<open>throw\<close> statements (a \<open>parsererror\<close> element, no \<open>VOUCHER\<close> element). The browser's
  \<open>parseFromString\<close> and \<open>toUpperCase\<close> are parameters.
\<close>

definition parseTallyXML ::
    "(jsstring \<Rightarrow> node) \<Rightarrow> (jsstring \<Rightarrow> jsstring) \<Rightarrow> jsstring \<Rightarrow> invoice option" where
  "parseTallyXML parseFromString toUpperCase xmlString =
     (let cleaned = remove_entity xmlString;
          xmlDoc = parseFromString cleaned
      in case doc_querySelector [str ''parsererror''] xmlDoc of
           Some parseError \<Rightarrow> None
         | None \<Rightarrow>
             (case doc_querySelector [str ''VOUCHER''] xmlDoc of
                None \<Rightarrow> None
              | Some voucher \<Rightarrow> Some (extract_invoice toUpperCase xmlDoc voucher)))"

section \<open>The receipt command generator (generateEscPosCommands.js)\<close>

subsection \<open>Text encoding\<close>

text \<open>\<open>TextEncoder.encode\<close>: UTF-8 of a string of UTF-16 code units.\<close>

definition utf8_code_point :: "nat \<Rightarrow> byte list" where
  "utf8_code_point cp =
     (if cp < 0x80 then [of_nat cp]
      else if cp < 0x800 then [of_nat (0xC0 + cp div 64), of_nat (0x80 + cp mod 64)]
      else if cp < 0x10000 then
        [of_nat (0xE0 + cp div 4096), of_nat (0x80 + cp div 64 mod 64), of_nat (0x80 + cp mod 64)]
      else [of_nat (0xF0 + cp div 262144), of_nat (0x80 + cp div 4096 mod 64),
            of_nat (0x80 + cp div 64 mod 64), of_nat (0x80 + cp mod 64)])"

definition is_high_surrogate :: "16 word \<Rightarrow> bool" where
  "is_high_surrogate c \<longleftrightarrow> 0xD800 \<le> c \<and> c \<le> 0xDBFF"

definition is_low_surrogate :: "16 word \<Rightarrow> bool" where
  "is_low_surrogate c \<longleftrightarrow> 0xDC00 \<le> c \<and> c \<le> 0xDFFF"

fun utf8 :: "jsstring \<Rightarrow> byte list" where
  "utf8 [] = []"
| "utf8 [c] =
     (if is_high_surrogate c \<or> is_low_surrogate c then [0xEF, 0xBF, 0xBD]
      else utf8_code_point (unat c))"
| "utf8 (c # d # s) =
     (if is_high_surrogate c \<and> is_low_surrogate d then
        utf8_code_point (0x10000 + (unat c - 0xD800) * 1024 + (unat d - 0xDC00)) @ utf8 s
      else if is_high_surrogate c \<or> is_low_surrogate c then [0xEF, 0xBF, 0xBD] @ utf8 (d # s)
      else utf8_code_point (unat c) @ utf8 (d # s))"

text \<open>\<open>encodeText\<close>: the rupee sign U+20B9 becomes \<open>Rs. \<close>, then the text is encoded.\<close>

definition encodeText :: "jsstring \<Rightarrow> byte list" where
  "encodeText text = utf8 (concat (map (\<lambda>c. if c = 0x20B9 then str ''Rs. '' else [c]) text))"

subsection \<open>The raster image (printImage)\<close>

text \<open>
  A loaded image: its natural size, and the RGBA bytes \<open>getImageData\<close> gives back once
  the browser has drawn it onto a canvas of the given width and height.
\<close>

record image =
  img_width :: nat
  img_height :: nat
  drawn :: "nat \<Rightarrow> nat \<Rightarrow> byte list"

text \<open>\<open>data[i]\<close> as a number; a read past the end is \<open>undefined\<close>, NaN in arithmetic.\<close>

definition data_at :: "byte list \<Rightarrow> nat \<Rightarrow> jsnum" where
  "data_at d i = (if i < length d then Fin (of_nat (unat (d ! i))) else NaN)"

definition luminance :: "byte list \<Rightarrow> nat \<Rightarrow> jsnum" where
  "luminance d pixelIndex =
     jsadd (jsadd (jsmul (binary64 (299 / 1000)) (data_at d pixelIndex))
                  (jsmul (binary64 (587 / 1000)) (data_at d (pixelIndex + 1))))
           (jsmul (binary64 (114 / 1000)) (data_at d (pixelIndex + 2)))"

text \<open>The pixel at column \<open>x\<close> of row \<open>y\<close> prints: its luminance is below 128.\<close>

definition ink :: "byte list \<Rightarrow> nat \<Rightarrow> nat \<Rightarrow> nat \<Rightarrow> bool" where
  "ink d displayWidth y x = jslt (luminance d ((y * displayWidth + x) * 4)) (Fin 128)"

text \<open>\<open>Math.ceil(displayWidth / 8)\<close>.\<close>

definition bytesPerRow :: "nat \<Rightarrow> nat" where
  "bytesPerRow displayWidth = nat \<lceil>rat_of_nat displayWidth / 8\<rceil>"

text \<open>The body of the inner loop (lines 105 to 118).\<close>

definition plot :: "byte list \<Rightarrow> nat \<Rightarrow> nat \<Rightarrow> nat \<Rightarrow> byte list \<Rightarrow> byte list" where
  "plot d displayWidth y x bitmapData =
     (if ink d displayWidth y x then
        (let bytePosition = x div 8; bitPosition = 7 - x mod 8;
             i = y * bytesPerRow displayWidth + bytePosition
         in bitmapData[i := (bitmapData ! i) OR push_bit bitPosition 1])
      else bitmapData)"

text \<open>The two loops over a zeroed \<open>Uint8Array\<close> (lines 100 to 120).\<close>

definition rasterize :: "byte list \<Rightarrow> nat \<Rightarrow> nat \<Rightarrow> byte list" where
  "rasterize d displayWidth displayHeight =
     fold (\<lambda>y bitmapData. fold (plot d displayWidth y) [0..<displayWidth] bitmapData)
       [0..<displayHeight] (replicate (bytesPerRow displayWidth * displayHeight) 0)"

text \<open>The \<open>GS v 0\<close> command (lines 122 to 127).\<close>

definition raster_commands :: "byte list \<Rightarrow> nat \<Rightarrow> nat \<Rightarrow> byte list" where
  "raster_commands d displayWidth displayHeight =
     [0x1D, 0x76, 0x30, 0x00,
      of_nat (bytesPerRow displayWidth), of_nat (bytesPerRow displayWidth div 256),
      of_nat displayHeight, of_nat (displayHeight div 256)]
     @ rasterize d displayWidth displayHeight"

text \<open>
  \<open>printImage\<close>. \<open>load\<close> is the browser loading the image, \<open>None\<close> when \<open>onerror\<close>
  fires. The result \<open>None\<close> is the promise that never settles: \<open>getImageData\<close> throws
  inside \<open>onload\<close> when the rounded height is not at least 1.
\<close>

definition printImage :: "(jsstring \<Rightarrow> image option) \<Rightarrow> jsstring \<Rightarrow> nat \<Rightarrow> byte list option" where
  "printImage load imageUrl targetWidthPx =
     (if imageUrl = [] then Some []
      else case load imageUrl of
             None \<Rightarrow> Some []
           | Some img \<Rightarrow>
               (let aspectRatio = jsdiv (Fin (of_nat (img_width img))) (Fin (of_nat (img_height img)));
                    displayWidth = targetWidthPx;
                    displayHeight = Math_round (jsdiv (Fin (of_nat targetWidthPx)) aspectRatio)
                in case displayHeight of
                     Fin h \<Rightarrow>
                       if 1 \<le> h \<and> 1 \<le> displayWidth then
                         Some (raster_commands (drawn img displayWidth (nat \<lfloor>h\<rfloor>))
                                 displayWidth (nat \<lfloor>h\<rfloor>))
                       else None
                   | _ \<Rightarrow> None))"

subsection \<open>Settings and commands\<close>

record settings =
  logoUrl :: jsstring
  headerAlignment :: jsstring
  lineSeparator :: jsstring
  labelBold :: bool
  valueBold :: bool

text \<open>
  One command for each call that appends to the \<open>commands\<close> array: the helpers
  \<open>setAlignment\<close>, \<open>setBold\<close>, \<open>setDoubleSize\<close> and \<open>printLine\<close>, a direct
  \<open>commands.push\<close> of bytes, and a push of encoded text without a line feed.
  \<open>bytes_of\<close> is what the call appends.
\<close>

datatype command =
    Push "byte list"
  | SetAlignment jsstring
  | SetBold bool
  | SetDoubleSize bool
  | PrintLine jsstring
  | PushText jsstring

definition ESC :: byte where "ESC = 0x1B"
definition GS :: byte where "GS = 0x1D"
definition LF :: byte where "LF = 0x0A"

fun bytes_of :: "command \<Rightarrow> byte list" where
  "bytes_of (Push bs) = bs"
| "bytes_of (SetAlignment alignment) =
     [ESC, 0x61, if alignment = str ''right'' then 0x02
                 else if alignment = str ''center'' then 0x01 else 0x00]"
| "bytes_of (SetBold enable) = [ESC, 0x45, if enable then 0x01 else 0x00]"
| "bytes_of (SetDoubleSize enable) = [ESC, 0x21, if enable then 0x30 else 0x00]"
| "bytes_of (PrintLine text) = encodeText text @ [LF]"
| "bytes_of (PushText text) = encodeText text"

definition TOTAL_RECEIPT_WIDTH :: nat where "TOTAL_RECEIPT_WIDTH = 42"
definition DOUBLE_SIZE_CHARS_PER_LINE :: nat where "DOUBLE_SIZE_CHARS_PER_LINE = 14"
definition SNO_COL_WIDTH :: nat where "SNO_COL_WIDTH = 3"
definition ITEM_NAME_COL_WIDTH :: nat where
  "ITEM_NAME_COL_WIDTH = TOTAL_RECEIPT_WIDTH - SNO_COL_WIDTH - 1"
definition QTY_RATE_AMOUNT_LINE_INDENT :: nat where
  "QTY_RATE_AMOUNT_LINE_INDENT = SNO_COL_WIDTH + 1"

text \<open>\<open>printSeparator(settings.lineSeparator || '-', TOTAL_RECEIPT_WIDTH)\<close>.\<close>

definition printSeparator :: "settings \<Rightarrow> command" where
  "printSeparator s =
     PrintLine (repeat (if lineSeparator s = [] then str ''-'' else lineSeparator s)
                  TOTAL_RECEIPT_WIDTH)"

subsection \<open>The sections of the receipt\<close>

text \<open>
  The \<open>while\<close> loop that wraps the company name (lines 247 to 259): the lines it prints.
\<close>

function wrap_company_name :: "jsstring \<Rightarrow> jsstring list" where
  "wrap_company_name remainingCompanyName =
     (if remainingCompanyName = [] then []
      else let line = take DOUBLE_SIZE_CHARS_PER_LINE remainingCompanyName
           in case lastIndexOf line 32 of
                Some lastSpaceIndex \<Rightarrow>
                  if 0 < lastSpaceIndex \<and> length line = DOUBLE_SIZE_CHARS_PER_LINE then
                    trim (take lastSpaceIndex line)
                    # wrap_company_name (drop (lastSpaceIndex + 1) remainingCompanyName)
                  else trim line
                       # wrap_company_name (drop DOUBLE_SIZE_CHARS_PER_LINE remainingCompanyName)
              | None \<Rightarrow>
                  trim line
                  # wrap_company_name (drop DOUBLE_SIZE_CHARS_PER_LINE remainingCompanyName))"
  by pat_completeness auto
termination
  by (relation "measure length") (auto simp: DOUBLE_SIZE_CHARS_PER_LINE_def)

declare wrap_company_name.simps [simp del]

text \<open>
  The \<open>while\<close> loops that cut a text into pieces of \<open>n\<close> code units (lines 371 to 375,
  425 to 429 and 441 to 445); \<open>n\<close> is 38 or 42 there.
\<close>

function hard_wrap :: "nat \<Rightarrow> jsstring \<Rightarrow> jsstring list" where
  "hard_wrap n s = (if s = [] \<or> n = 0 then [] else take n s # hard_wrap n (drop n s))"
  by pat_completeness auto
termination
  by (relation "measure (\<lambda>(n, s). length s)") auto

declare hard_wrap.simps [simp del]

text \<open>Sections 0 and 1: the logo and the company header (lines 229 to 273).\<close>

definition logo_section :: "byte list \<Rightarrow> settings \<Rightarrow> command list" where
  "logo_section logoCommands s =
     (if logoUrl s \<noteq> [] then [SetAlignment (str ''center''), Push logoCommands, PrintLine []]
      else [])"

definition company_header :: "invoice \<Rightarrow> settings \<Rightarrow> command list" where
  "company_header x s =
     [SetAlignment (headerAlignment s), SetBold True, SetDoubleSize True]
     @ (if company_name (company x) \<noteq> []
        then map PrintLine (wrap_company_name (company_name (company x))) else [])
     @ [SetDoubleSize False, SetBold False]
     @ (case company_address (company x) of
          None \<Rightarrow> []
        | Some a \<Rightarrow> if a = [] then [] else map PrintLine (split_on 10 a))
     @ (case company_phone (company x) of
          None \<Rightarrow> []
        | Some p \<Rightarrow> if p = [] then [] else [PrintLine p])
     @ (if company_gstin (company x) \<noteq> []
        then [PrintLine (str ''GSTIN: '' @ company_gstin (company x))] else [])
     @ [PrintLine []]"

text \<open>Section 2: the heading (lines 276 to 284).\<close>

definition heading_section :: "invoice \<Rightarrow> settings \<Rightarrow> command list" where
  "heading_section x s =
     [printSeparator s, SetAlignment (str ''center''), SetBold True]
     @ (if heading x \<noteq> [] then [PrintLine (heading x)] else [])
     @ [SetBold False, printSeparator s, PrintLine []]"

text \<open>Section 3: the order details (lines 287 to 308).\<close>

definition order_section :: "invoice \<Rightarrow> settings \<Rightarrow> command list" where
  "order_section x s =
     [SetAlignment (str ''left''),
      SetBold (labelBold s), PushText (str ''Voucher No: ''),
      SetBold (valueBold s), PrintLine (number (order_info x)),
      SetBold (labelBold s), PushText (str ''Date: ''),
      SetBold (valueBold s), PrintLine (date (order_info x)),
      SetBold (labelBold s), PushText (str ''Entered By: ''),
      SetBold (valueBold s), PrintLine (user (order_info x)),
      SetBold False, printSeparator s, PrintLine []]"

text \<open>Section 4: the party details (lines 311 to 323).\<close>

definition party_section :: "invoice \<Rightarrow> command list" where
  "party_section x =
     (if party_name (party x) \<noteq> [] then
        [SetBold True, PrintLine (str ''PARTY DETAILS:''), SetBold False,
         PrintLine (party_name (party x))]
        @ (if party_address (party x) \<noteq> []
           then map PrintLine (split_on 10 (party_address (party x))) else [])
        @ (if party_gstin (party x) \<noteq> []
           then [PrintLine (str ''GSTIN: '' @ party_gstin (party x))] else [])
        @ [PrintLine []]
      else [])"

text \<open>Section 5: the header of the items table (lines 332 to 350).\<close>

definition items_header :: "settings \<Rightarrow> command list" where
  "items_header s =
     [printSeparator s, SetAlignment (str ''left''), SetBold True,
      PrintLine (padEnd (str ''S.No'') SNO_COL_WIDTH @ str '' ''
                 @ padEnd (str ''Item Name'') ITEM_NAME_COL_WIDTH),
      PrintLine (repeat (str '' '') QTY_RATE_AMOUNT_LINE_INDENT
                 @ padEnd (str ''Qty'') 5 @ str '' '' @ padEnd (str ''Rate'') 8 @ str '' ''
                 @ padStart (str ''Amount'') 8),
      SetBold False, printSeparator s]"

text \<open>Section 6: the items (lines 353 to 390).\<close>

text \<open>\<open>String(item.sNo)\<close>.\<close>

definition String_sNo :: "nat option \<Rightarrow> jsstring" where
  "String_sNo n = (case n of None \<Rightarrow> str ''undefined'' | Some k \<Rightarrow> decimal k)"

definition qtyRateAmountText :: "item \<Rightarrow> jsstring" where
  "qtyRateAmountText it =
     str ''Qty: '' @ toFixed (parseFloat (qty it)) 2
     @ str '' @ Rs. '' @ toFixed (parseFloat (rate it)) 2
     @ str '' = Rs. '' @ toFixed (parseFloat (amount it)) 2"

text \<open>The text of the second row of an item (lines 380 to 384).\<close>

definition qtyRateAmountLine :: "item \<Rightarrow> jsstring" where
  "qtyRateAmountLine it =
     (let paddingForRightAlign = TOTAL_RECEIPT_WIDTH - length (qtyRateAmountText it)
      in repeat (str '' '') paddingForRightAlign @ qtyRateAmountText it)"

definition item_commands :: "item \<Rightarrow> command list" where
  "item_commands it =
     [SetBold True,
      PrintLine (padEnd (String_sNo (sNo it)) SNO_COL_WIDTH @ str '' ''
                 @ take ITEM_NAME_COL_WIDTH (item_name it)),
      SetBold False]
     @ (if ITEM_NAME_COL_WIDTH < length (item_name it) then
          map (\<lambda>line. PrintLine (repeat (str '' '') (SNO_COL_WIDTH + 1) @ line))
            (hard_wrap (TOTAL_RECEIPT_WIDTH - (SNO_COL_WIDTH + 1))
               (drop ITEM_NAME_COL_WIDTH (item_name it)))
        else [])
     @ [PrintLine (qtyRateAmountLine it), PrintLine []]"

definition items_section :: "invoice \<Rightarrow> command list" where
  "items_section x =
     (if 0 < length (items x) then concat (map item_commands (items x))
      else [PrintLine (str ''No items found.'')])
     @ [PrintLine []]"

text \<open>
  Section 7: the totals. \<open>totals_lines\<close> is lines 395 to 402, from the subtotal to the
  total; \<open>parseFloat(t) > 0\<close> is \<open>jslt (Fin 0) (parseFloat t)\<close>.
\<close>

definition totals_lines :: "invoice \<Rightarrow> command list" where
  "totals_lines x =
     [PrintLine (str ''Sub Total: ''
                 @ (if subtotal (totals x) = [] then str ''0.00'' else subtotal (totals x)))]
     @ (if jslt (Fin 0) (parseFloat (cgst (totals x)))
        then [PrintLine (str ''CGST: '' @ cgst (totals x))] else [])
     @ (if jslt (Fin 0) (parseFloat (sgst (totals x)))
        then [PrintLine (str ''SGST: '' @ sgst (totals x))] else [])
     @ (if jslt (Fin 0) (parseFloat (igst (totals x)))
        then [PrintLine (str ''IGST: '' @ igst (totals x))] else [])
     @ [SetBold True,
        PrintLine (str ''TOTAL: Rs. ''
                   @ (if grand_total (totals x) = [] then str ''0.00'' else grand_total (totals x))),
        SetBold False]"

definition totals_section :: "invoice \<Rightarrow> settings \<Rightarrow> command list" where
  "totals_section x s =
     [printSeparator s, SetAlignment (str ''right'')] @ totals_lines x @ [PrintLine []]"

text \<open>Sections 8 to 12 (lines 406 to 462).\<close>

definition amount_in_words_section :: "invoice \<Rightarrow> command list" where
  "amount_in_words_section x =
     (case amountInWords x of
        None \<Rightarrow> []
      | Some w \<Rightarrow>
          if w = [] then []
          else [SetAlignment (str ''left''), PrintLine (str ''Amount in Words:''), SetBold True,
                PrintLine w, SetBold False, PrintLine []])"

definition narration_section :: "invoice \<Rightarrow> settings \<Rightarrow> command list" where
  "narration_section x s =
     (if narration x \<noteq> [] then
        [printSeparator s, SetAlignment (str ''center''), SetBold True,
         PrintLine (str ''Remarks:''), SetBold False, SetAlignment (str ''left'')]
        @ map PrintLine (hard_wrap TOTAL_RECEIPT_WIDTH (narration x))
        @ [printSeparator s, PrintLine []]
      else [])"

definition terms_section :: "invoice \<Rightarrow> settings \<Rightarrow> command list" where
  "terms_section x s =
     (case termsAndConditions x of
        None \<Rightarrow> []
      | Some t \<Rightarrow>
          if t = [] then []
          else [printSeparator s, SetAlignment (str ''center''),
                PrintLine (str ''Terms & Conditions:''), SetAlignment (str ''left'')]
               @ map PrintLine (hard_wrap TOTAL_RECEIPT_WIDTH t)
               @ [PrintLine []])"

definition signatory_section :: "invoice \<Rightarrow> command list" where
  "signatory_section x =
     (case authorizedSignatory x of
        None \<Rightarrow> []
      | Some a \<Rightarrow>
          if a = [] then []
          else [SetAlignment (str ''right''), PrintLine [], PrintLine [], PrintLine a,
                PrintLine []])"

definition closing_section :: "command list" where
  "closing_section =
     [SetAlignment (str ''center''), PrintLine (str ''Thank you for your business!''),
      PrintLine [],
      Push [LF, LF, LF, LF, LF],
      Push [GS, 0x56, 0x00]]"

text \<open>The whole sequence of calls for a document, \<open>logoCommands\<close> being the logo's bytes.\<close>

definition receipt_commands :: "byte list \<Rightarrow> invoice \<Rightarrow> settings \<Rightarrow> command list" where
  "receipt_commands logoCommands x s =
     [Push [ESC, 0x40]]
     @ logo_section logoCommands s
     @ company_header x s
     @ heading_section x s
     @ order_section x s
     @ party_section x
     @ items_header s
     @ items_section x
     @ totals_section x s
     @ amount_in_words_section x
     @ narration_section x s
     @ terms_section x s
     @ signatory_section x
     @ closing_section"

text \<open>
  \<open>generateEscPosCommands\<close>. An absent document gives the empty buffer at once. The
  result \<open>None\<close> is a promise that never settles, which only the logo can cause.
\<close>

definition generateEscPosCommands ::
    "(jsstring \<Rightarrow> image option) \<Rightarrow> invoice option \<Rightarrow> settings \<Rightarrow> byte list option" where
  "generateEscPosCommands load xmlData s =
     (case xmlData of
        None \<Rightarrow> Some []
      | Some x \<Rightarrow>
          (case (if logoUrl s \<noteq> [] then printImage load (logoUrl s) 384 else Some []) of
             None \<Rightarrow> None
           | Some logoCommands \<Rightarrow>
               Some (concat (map bytes_of (receipt_commands logoCommands x s)))))"

section \<open>Example inputs\<close>

text \<open>A document with a voucher and nothing in it.\<close>

definition doc_minimal :: node where
  "doc_minimal = Element (str ''ENVELOPE'') [Element (str ''VOUCHER'') []]"

text \<open>The invoice and the settings of the end-to-end scenario: one item, no tax, no logo.\<close>

definition item_widget :: item where
  "item_widget =
     \<lparr>item_name = str ''Widget'', qty = str ''10'', rate = str ''25.00'',
      amount = str ''250.00'', sNo = Some 1\<rparr>"

definition invoice_widget :: invoice where
  "invoice_widget =
     \<lparr>heading = str ''SALES ORDER'',
      company = \<lparr>company_name = str ''ACME'', company_gstin = [], company_address = None,
                 company_phone = None\<rparr>,
      order_info = \<lparr>number = str ''SO1'', date = str ''09-07-2025'', user = str ''admin''\<rparr>,
      party = \<lparr>party_name = [], party_address = [], party_gstin = []\<rparr>,
      items = [item_widget],
      totals = \<lparr>subtotal = str ''250.00'', igst = str ''0.00'', cgst = str ''0.00'',
                sgst = str ''0.00'', grand_total = str ''250.00''\<rparr>,
      narration = [],
      amountInWords = None, termsAndConditions = None, authorizedSignatory = None\<rparr>"

definition settings_plain :: settings where
  "settings_plain =
     \<lparr>logoUrl = [], headerAlignment = str ''center'', lineSeparator = str ''-'',
      labelBold = True, valueBold = False\<rparr>"

text \<open>A sales voucher shown in the consumption view: one entry, in the all-inventory list.\<close>

definition voucher_consumption :: node where
  "voucher_consumption =
     Element (str ''VOUCHER'')
       [Element (str ''VOUCHERTYPENAME'') [Text (str ''Sales'')],
        Element (str ''OBJVIEW'') [Text (str ''Consumption Voucher View'')],
        Element (str ''ALLINVENTORYENTRIES.LIST'')
          [Element (str ''STOCKITEMNAME'') [Text (str ''Bolt'')]]]"

text \<open>A sales order whose only entry is in the out-going list.\<close>

definition voucher_sales_order :: node where
  "voucher_sales_order =
     Element (str ''VOUCHER'')
       [Element (str ''VOUCHERTYPENAME'') [Text (str ''Sales Order'')],
        Element (str ''INVENTORYENTRIESOUT.LIST'')
          [Element (str ''STOCKITEMNAME'') [Text (str ''Nut'')]]]"

text \<open>An entry of 0.004 and a sales voucher with two of them.\<close>

definition entry_small :: node where
  "entry_small =
     Element (str ''ALLINVENTORYENTRIES.LIST'') [Element (str ''AMOUNT'') [Text (str ''0.004'')]]"

definition voucher_small_amounts :: node where
  "voucher_small_amounts =
     Element (str ''VOUCHER'')
       [Element (str ''VOUCHERTYPENAME'') [Text (str ''Sales'')], entry_small, entry_small]"

text \<open>An entry with a negative rate and an amount that is no number.\<close>

definition entry_not_numeric :: node where
  "entry_not_numeric =
     Element (str ''ALLINVENTORYENTRIES.LIST'')
       [Element (str ''RATE'') [Text (str ''-5.00/NOS'')],
        Element (str ''AMOUNT'') [Text (str ''abc'')]]"

text \<open>
  A tax ledger entry with a negative amount, and a sales voucher with it and the entry
  above.
\<close>

definition ledger_igst_negative :: node where
  "ledger_igst_negative =
     Element (str ''LEDGERENTRIES.LIST'')
       [Element (str ''LEDGERNAME'') [Text (str ''IGST'')],
        Element (str ''AMOUNT'') [Text (str ''-18.00'')]]"

definition voucher_not_numeric :: node where
  "voucher_not_numeric =
     Element (str ''VOUCHER'')
       [Element (str ''VOUCHERTYPENAME'') [Text (str ''Sales'')], entry_not_numeric,
        ledger_igst_negative]"

text \<open>An entry whose amount is \<open>10 ^ 21\<close>, and a sales voucher holding it.\<close>

definition entry_huge :: node where
  "entry_huge =
     Element (str ''ALLINVENTORYENTRIES.LIST'') [Element (str ''AMOUNT'') [Text (str ''1e21'')]]"

definition voucher_huge :: node where
  "voucher_huge =
     Element (str ''VOUCHER'') [Element (str ''VOUCHERTYPENAME'') [Text (str ''Sales'')], entry_huge]"

text \<open>An entry with a rate and an amount, and a sales voucher holding it.\<close>

definition entry_plain :: node where
  "entry_plain =
     Element (str ''ALLINVENTORYENTRIES.LIST'')
       [Element (str ''RATE'') [Text (str ''25.00/NOS'')],
        Element (str ''AMOUNT'') [Text (str ''-250.00'')]]"

definition voucher_plain :: node where
  "voucher_plain =
     Element (str ''VOUCHER'') [Element (str ''VOUCHERTYPENAME'') [Text (str ''Sales'')], entry_plain]"

text \<open>The totals of the tax line scenario: only IGST is charged.\<close>

definition invoice_igst :: invoice where
  "invoice_igst =
     invoice_widget\<lparr>totals := \<lparr>subtotal = str ''2500.00'', igst = str ''450.00'',
                                cgst = str ''0.00'', sgst = str ''0.00'',
                                grand_total = str ''2950.00''\<rparr>\<rparr>"







section \<open>The claims in the words of the specification\<close>

text \<open>
  The lines of the totals section, told apart by their labels.
\<close>

datatype totals_label = Subtotal_line | CGST_line | SGST_line | IGST_line | Total_line

definition totals_label_of :: "command \<Rightarrow> totals_label option" where
  "totals_label_of c =
     (case c of
        PrintLine t \<Rightarrow>
          if prefix (str ''Sub Total: '') t then Some Subtotal_line
          else if prefix (str ''CGST: '') t then Some CGST_line
          else if prefix (str ''SGST: '') t then Some SGST_line
          else if prefix (str ''IGST: '') t then Some IGST_line
          else if prefix (str ''TOTAL: Rs. '') t then Some Total_line
          else None
      | _ \<Rightarrow> None)"

text \<open>
  C1 as the specification words it: the subtotal is the sum of the raw amounts of the
  entries, formatted once at the end.
\<close>

definition raw_amount :: "node \<Rightarrow> jsnum" where
  "raw_amount el = Math_abs (parseFloat_or_0 (get (str ''AMOUNT'') el))"

definition subtotal_of_raw_amounts :: "node list \<Rightarrow> jsstring" where
  "subtotal_of_raw_amounts els = toFixed (foldl (\<lambda>sum el. jsadd sum (raw_amount el)) (Fin 0) els) 2"

text \<open>
  A monetary string: a non-negative decimal with exactly 2 fraction digits, that is one
  or more digits, a point, two digits. A signed one may carry a minus sign in front.
\<close>

definition is_money :: "jsstring \<Rightarrow> bool" where
  "is_money s \<longleftrightarrow>
     4 \<le> length s \<and> list_all is_digit (take (length s - 3) s)
     \<and> s ! (length s - 3) = 46 \<and> list_all is_digit (drop (length s - 2) s)"

definition is_signed_money :: "jsstring \<Rightarrow> bool" where
  "is_signed_money s \<longleftrightarrow> is_money s \<or> (case s of [] \<Rightarrow> False | c # t \<Rightarrow> c = 45 \<and> is_money t)"

text \<open>A number that is not negative: a finite one from 0 on, or plus infinity.\<close>

fun not_negative :: "jsnum \<Rightarrow> bool" where
  "not_negative (Fin r) = (0 \<le> r)"
| "not_negative PosInf = True"
| "not_negative _ = False"

text \<open>A text the extractor reads as a finite number below \<open>10 ^ 21\<close> in magnitude.\<close>

definition numeric_text :: "jsstring \<Rightarrow> bool" where
  "numeric_text s = (case parseFloat_or_0 s of Fin r \<Rightarrow> \<bar>r\<bar> < 10 ^ 21 | _ \<Rightarrow> False)"

text \<open>Every rate and amount below an element is such a text.\<close>

definition amounts_numeric :: "node \<Rightarrow> bool" where
  "amounts_numeric voucher =
     list_all (\<lambda>e. numeric_text (split_first 47 (get (str ''RATE'') e))
                  \<and> numeric_text (get (str ''AMOUNT'') e)
                  \<and> (case querySelector [str ''AMOUNT''] e of
                        None \<Rightarrow> True
                      | Some a \<Rightarrow> numeric_text (textContent a)))
       (map snd (descendants voucher))"


section \<open>Evaluating numbers on concrete inputs\<close>

text \<open>
  Rules that let the simplifier run \<open>bit_length\<close> and \<open>decimal\<close> on numerals, and the
  definitions a concrete \<open>parseFloat\<close> or \<open>toFixed\<close> unfolds to.
\<close>

lemma floor_rat_numeral_divide [simp]:
  "\<lfloor>(numeral a :: rat) / numeral b\<rfloor> = numeral a div numeral b"
  using floor_divide_of_int_eq [of "numeral a" "numeral b", where ?'a = rat] by simp

lemma bit_length_numeral:
  "bit_length 0 = 0"
  "bit_length 1 = 1"
  "bit_length (Suc 0) = 1"
  "bit_length (numeral k) = Suc (bit_length (numeral k div 2))"
  by (subst bit_length.simps, simp add: bit_length.simps)+

lemma decimal_numeral:
  "decimal 0 = [48]"
  "decimal 1 = [49]"
  "decimal (Suc 0) = [49]"
  "decimal (numeral k)
   = (if (numeral k :: nat) < 10 then [of_nat (48 + numeral k)]
      else decimal (numeral k div 10) @ [of_nat (48 + numeral k mod 10)])"
  by (subst decimal.simps, simp)+

lemmas number_defs =
  str_def trimStart_def is_whitespace_def parseFloat_def parse_magnitude_def parse_unsigned_def
  is_digit_def digits_val_def parse_exponent_def pow10_def binary64_def floor_log2_def
  pow2_def round_half_even_def toFixed_def Let_def

lemmas number_eval = bit_length_numeral decimal_numeral

lemma binary64_zero [simp]: "binary64 0 = Fin 0"
  by (simp add: binary64_def)

lemmas binary64_unfold = binary64_def Let_def floor_log2_def pow2_def round_half_even_def

lemma toFixed_zero: "toFixed (Fin 0) 2 = str ''0.00''"
  unfolding number_defs by (simp add: number_eval)

lemma parseFloat_empty: "parseFloat [] = NaN"
  by (simp add: parseFloat_def trimStart_def)

lemma parseFloat_zero_text: "parseFloat (str ''0.00'') = Fin 0"
  unfolding number_defs by (simp add: number_eval)

lemma parseFloat_450: "parseFloat (str ''450.00'') = Fin 450"
  unfolding number_defs by (simp add: number_eval)

section \<open>Properties of the extractor\<close>

lemma length_assign_sNo [simp]: "length (assign_sNo its) = length its"
  by (simp add: assign_sNo_def)

lemma assign_sNo_dense: "map sNo (assign_sNo its) = map Some [1 ..< Suc (length its)]"
proof -
  have "map sNo (map (\<lambda>(index, it). it\<lparr>sNo := Some (index + 1)\<rparr>) (enumerate n its))
        = map Some [Suc n ..< Suc n + length its]" for n
  proof (induction its arbitrary: n)
    case Nil
    show ?case by simp
  next
    case (Cons a its)
    have "[Suc n ..< Suc n + length (a # its)] = Suc n # [Suc (Suc n) ..< Suc (Suc n) + length its]"
      by (subst upt_rec) simp
    then show ?case using Cons.IH [of "Suc n"] by (simp del: upt_Suc)
  qed
  from this [of 0] show ?thesis by (simp add: assign_sNo_def del: upt_Suc)
qed

lemma items_extract_invoice:
  "items (extract_invoice toUpperCase xmlDoc voucher)
   = assign_sNo (select_items (toUpperCase (get (str ''VOUCHERTYPENAME'') voucher))
                   (toUpperCase (get (str ''OBJVIEW'') voucher)) voucher)"
  by (simp add: extract_invoice_def Let_def)

lemma elements_doc_minimal:
  "elements [] doc_minimal
   = [([], doc_minimal), ([str ''ENVELOPE''], Element (str ''VOUCHER'') [])]"
  by (simp add: doc_minimal_def)

lemma voucher_doc_minimal:
  "doc_querySelector [str ''VOUCHER''] doc_minimal = Some (Element (str ''VOUCHER'') [])"
  unfolding doc_querySelector_def elements_doc_minimal
  by (simp add: doc_minimal_def str_def)

lemma parsererror_doc_minimal: "doc_querySelector [str ''parsererror''] doc_minimal = None"
  unfolding doc_querySelector_def elements_doc_minimal
  by (simp add: doc_minimal_def str_def)

text \<open>
  C9: for every input text and every behaviour of the XML parser, \<open>parseTallyXML\<close>
  returns the failure value exactly when the parsed document holds a \<open>parsererror\<close>
  element or no \<open>VOUCHER\<close> element; in every other case it returns the whole Invoice
  built from the voucher, every item of which has its serial number, 1 to N in order.
  There is no third outcome.
\<close>

theorem parseTallyXML_invoice_or_failure:
  "(parseTallyXML parseFromString toUpperCase xmlString = None \<longleftrightarrow>
      doc_querySelector [str ''parsererror''] (parseFromString (remove_entity xmlString)) \<noteq> None
      \<or> doc_querySelector [str ''VOUCHER''] (parseFromString (remove_entity xmlString)) = None)
   \<and> (\<forall>inv. parseTallyXML parseFromString toUpperCase xmlString = Some inv \<longrightarrow>
         (\<exists>voucher. doc_querySelector [str ''VOUCHER''] (parseFromString (remove_entity xmlString))
                       = Some voucher
            \<and> inv = extract_invoice toUpperCase (parseFromString (remove_entity xmlString)) voucher)
         \<and> map sNo (items inv) = map Some [1 ..< Suc (length (items inv))])"
proof -
  let ?doc = "parseFromString (remove_entity xmlString)"
  have dense: "map sNo (items (extract_invoice toUpperCase ?doc v))
               = map Some [1 ..< Suc (length (items (extract_invoice toUpperCase ?doc v)))]" for v
    unfolding items_extract_invoice using assign_sNo_dense [of "select_items _ _ v"]
    by (simp del: upt_Suc)
  show ?thesis
    by (auto simp: parseTallyXML_def Let_def dense simp del: upt_Suc split: option.splits)
qed

theorem parseTallyXML_invoice_or_failure_witness:
  "parseTallyXML (\<lambda>s. doc_minimal) toUpperCase_ascii [] \<noteq> None
   \<and> parseTallyXML (\<lambda>s. Element (str ''parsererror'') []) toUpperCase_ascii [] = None"
proof -
  have e: "doc_querySelector [str ''parsererror''] (Element (str ''parsererror'') []) \<noteq> None"
    by (simp add: doc_querySelector_def)
  have 1: "parseTallyXML (\<lambda>s. doc_minimal) toUpperCase_ascii [] \<noteq> None"
    using parseTallyXML_invoice_or_failure [of "\<lambda>s. doc_minimal" toUpperCase_ascii "[]"]
    by (simp add: voucher_doc_minimal parsererror_doc_minimal)
  have 2: "parseTallyXML (\<lambda>s. Element (str ''parsererror'') []) toUpperCase_ascii [] = None"
    using parseTallyXML_invoice_or_failure
            [of "\<lambda>s. Element (str ''parsererror'') []" toUpperCase_ascii "[]"] e
    by blast
  from 1 2 show ?thesis by simp
qed

lemma extract_invoice_of_result:
  assumes "parseTallyXML parseFromString toUpperCase xmlString = Some iv"
    and "doc_querySelector [str ''VOUCHER''] (parseFromString (remove_entity xmlString))
         = Some voucher"
  shows "iv = extract_invoice toUpperCase (parseFromString (remove_entity xmlString)) voucher"
  using assms by (auto simp: parseTallyXML_def Let_def split: option.splits)

lemma voucher_consumption_facts:
  "doc_querySelector [str ''VOUCHER''] voucher_consumption = Some voucher_consumption"
  "doc_querySelector [str ''parsererror''] voucher_consumption = None"
  "toUpperCase_ascii (get (str ''VOUCHERTYPENAME'') voucher_consumption) = str ''SALES''"
  "toUpperCase_ascii (get (str ''OBJVIEW'') voucher_consumption)
   = str ''CONSUMPTION VOUCHER VIEW''"
  "parseItemsFromList (getAll [str ''INVENTORYENTRIESOUT.LIST''] voucher_consumption) = []"
  "parseItemsFromList (getAll [str ''ALLINVENTORYENTRIES.LIST''] voucher_consumption)
   = [\<lparr>item_name = str ''Bolt'', qty = str ''0'', rate = str ''0.00'', amount = str ''0.00'',
       sNo = None\<rparr>]"
  by (simp_all add: voucher_consumption_def doc_querySelector_def getAll_def querySelectorAll_def
      parseItemsFromList_def parse_entry_def get_def querySelector_def parseQty_def
      split_first_def parseFloat_or_0_def parseFloat_empty toFixed_zero toUpperCase_ascii_def
      trim_def is_whitespace_def str_def)

lemma parseTallyXML_voucher_consumption:
  "parseTallyXML (\<lambda>s. voucher_consumption) toUpperCase_ascii []
   = Some (extract_invoice toUpperCase_ascii voucher_consumption voucher_consumption)"
  by (simp add: parseTallyXML_def voucher_consumption_facts)

lemma items_consumption:
  "items (extract_invoice toUpperCase_ascii voucher_consumption voucher_consumption) = []"
proof -
  have "includes_js (str ''CONSUMPTION VOUCHER VIEW'') (str ''CONSUMPTION VOUCHER VIEW'')"
    by (simp add: str_def)
  then show ?thesis
    by (simp add: items_extract_invoice select_items_def voucher_consumption_facts
        assign_sNo_def)
qed

text \<open>
  C2, as stated, fails: a voucher of type \<open>Sales\<close> shown in the consumption voucher view
  has a non-empty all-inventory list, yet the extractor returns the items of its (empty)
  out-going list, because the stock journal rule is tried first.
\<close>

theorem select_items_sales_counterexample:
  "doc_querySelector [str ''VOUCHER''] voucher_consumption = Some voucher_consumption
   \<and> includes_js (toUpperCase_ascii (get (str ''VOUCHERTYPENAME'') voucher_consumption))
         (str ''SALES'')
   \<and> parseItemsFromList (getAll [str ''ALLINVENTORYENTRIES.LIST''] voucher_consumption) \<noteq> []
   \<and> items (the (parseTallyXML (\<lambda>s. voucher_consumption) toUpperCase_ascii [])) = []"
proof -
  have "includes_js (str ''SALES'') (str ''SALES'')" by (simp add: str_def)
  then show ?thesis
    by (simp add: voucher_consumption_facts parseTallyXML_voucher_consumption items_consumption)
qed

text \<open>
  C2, amended: for every voucher whose upper-cased type contains \<open>SALES ORDER\<close> or
  \<open>SALES\<close>, the items (numbered from 1) are those of the out-going list whenever the
  all-inventory list yields none; when the all-inventory list yields items, they are its
  items alone, unless the stock journal rule takes the voucher first (the upper-cased
  type contains \<open>STOCK JOURNAL\<close> or the upper-cased object view contains
  \<open>CONSUMPTION VOUCHER VIEW\<close>), in which case they are those of the out-going list.
  This holds for every upper-casing function.
\<close>

theorem select_items_sales:
  assumes "parseTallyXML parseFromString toUpperCase xmlString = Some iv"
    and "doc_querySelector [str ''VOUCHER''] (parseFromString (remove_entity xmlString))
         = Some voucher"
    and "includes_js (toUpperCase (get (str ''VOUCHERTYPENAME'') voucher)) (str ''SALES ORDER'')
         \<or> includes_js (toUpperCase (get (str ''VOUCHERTYPENAME'') voucher)) (str ''SALES'')"
  shows "(parseItemsFromList (getAll [str ''ALLINVENTORYENTRIES.LIST''] voucher) = [] \<longrightarrow>
            items iv
            = assign_sNo (parseItemsFromList (getAll [str ''INVENTORYENTRIESOUT.LIST''] voucher)))
         \<and> (parseItemsFromList (getAll [str ''ALLINVENTORYENTRIES.LIST''] voucher) \<noteq> [] \<longrightarrow>
            items iv
            = assign_sNo
                (if includes_js (toUpperCase (get (str ''VOUCHERTYPENAME'') voucher))
                      (str ''STOCK JOURNAL'')
                    \<or> includes_js (toUpperCase (get (str ''OBJVIEW'') voucher))
                         (str ''CONSUMPTION VOUCHER VIEW'')
                 then parseItemsFromList (getAll [str ''INVENTORYENTRIESOUT.LIST''] voucher)
                 else parseItemsFromList (getAll [str ''ALLINVENTORYENTRIES.LIST''] voucher)))"
proof -
  have "iv = extract_invoice toUpperCase (parseFromString (remove_entity xmlString)) voucher"
    using assms(1,2) by (rule extract_invoice_of_result)
  then show ?thesis
    using assms(3)
    by (auto simp: items_extract_invoice select_items_def Let_def)
qed

lemma voucher_sales_order_facts:
  "doc_querySelector [str ''VOUCHER''] voucher_sales_order = Some voucher_sales_order"
  "doc_querySelector [str ''parsererror''] voucher_sales_order = None"
  "toUpperCase_ascii (get (str ''VOUCHERTYPENAME'') voucher_sales_order) = str ''SALES ORDER''"
  "toUpperCase_ascii (get (str ''OBJVIEW'') voucher_sales_order) = []"
  "parseItemsFromList (getAll [str ''ALLINVENTORYENTRIES.LIST''] voucher_sales_order) = []"
  "parseItemsFromList (getAll [str ''INVENTORYENTRIESOUT.LIST''] voucher_sales_order)
   = [\<lparr>item_name = str ''Nut'', qty = str ''0'', rate = str ''0.00'', amount = str ''0.00'',
       sNo = None\<rparr>]"
  by (simp_all add: voucher_sales_order_def doc_querySelector_def getAll_def querySelectorAll_def
      parseItemsFromList_def parse_entry_def get_def querySelector_def parseQty_def
      split_first_def parseFloat_or_0_def parseFloat_empty toFixed_zero toUpperCase_ascii_def
      trim_def is_whitespace_def str_def)

lemma voucher_plain_facts:
  "doc_querySelector [str ''VOUCHER''] voucher_plain = Some voucher_plain"
  "doc_querySelector [str ''parsererror''] voucher_plain = None"
  "toUpperCase_ascii (get (str ''VOUCHERTYPENAME'') voucher_plain) = str ''SALES''"
  "toUpperCase_ascii (get (str ''OBJVIEW'') voucher_plain) = []"
  "getAll [str ''ALLINVENTORYENTRIES.LIST''] voucher_plain = [entry_plain]"
  "getAll [str ''INVENTORYENTRIESOUT.LIST''] voucher_plain = []"
  "getAll [str ''LEDGERENTRIES.LIST''] voucher_plain = []"
  by (simp_all add: voucher_plain_def entry_plain_def doc_querySelector_def getAll_def
      querySelectorAll_def get_def querySelector_def toUpperCase_ascii_def
      trim_def is_whitespace_def str_def)

theorem select_items_sales_witness:
  "items (the (parseTallyXML (\<lambda>s. voucher_sales_order) toUpperCase_ascii []))
   = [\<lparr>item_name = str ''Nut'', qty = str ''0'', rate = str ''0.00'', amount = str ''0.00'',
       sNo = Some 1\<rparr>]
   \<and> items (the (parseTallyXML (\<lambda>s. voucher_plain) toUpperCase_ascii []))
     = assign_sNo [parse_entry entry_plain]"
proof -
  have s: "includes_js (str ''SALES ORDER'') (str ''SALES ORDER'')"
    "includes_js (str ''SALES'') (str ''SALES'')"
    "\<not> includes_js (str ''SALES'') (str ''STOCK JOURNAL'')"
    "\<not> includes_js [] (str ''CONSUMPTION VOUCHER VIEW'')"
    by (simp_all add: str_def)
  have p: "parseTallyXML (\<lambda>s. voucher_sales_order) toUpperCase_ascii []
           = Some (extract_invoice toUpperCase_ascii voucher_sales_order voucher_sales_order)"
    by (simp add: parseTallyXML_def voucher_sales_order_facts)
  have "items (extract_invoice toUpperCase_ascii voucher_sales_order voucher_sales_order)
        = assign_sNo (parseItemsFromList
                        (getAll [str ''INVENTORYENTRIESOUT.LIST''] voucher_sales_order))"
    using select_items_sales [OF p] s
    by (simp add: voucher_sales_order_facts)
  then have 1: "items (the (parseTallyXML (\<lambda>s. voucher_sales_order) toUpperCase_ascii []))
     = [\<lparr>item_name = str ''Nut'', qty = str ''0'', rate = str ''0.00'', amount = str ''0.00'',
         sNo = Some 1\<rparr>]"
    by (simp add: p voucher_sales_order_facts assign_sNo_def)
  have q: "parseTallyXML (\<lambda>s. voucher_plain) toUpperCase_ascii []
           = Some (extract_invoice toUpperCase_ascii voucher_plain voucher_plain)"
    by (simp add: parseTallyXML_def voucher_plain_facts)
  have "items (extract_invoice toUpperCase_ascii voucher_plain voucher_plain)
        = assign_sNo (parseItemsFromList (getAll [str ''ALLINVENTORYENTRIES.LIST''] voucher_plain))"
    using select_items_sales [OF q] s
    by (simp add: voucher_plain_facts parseItemsFromList_def)
  then have 2: "items (the (parseTallyXML (\<lambda>s. voucher_plain) toUpperCase_ascii []))
     = assign_sNo [parse_entry entry_plain]"
    by (simp add: q voucher_plain_facts parseItemsFromList_def)
  from 1 2 show ?thesis by simp
qed

subsection \<open>The subtotal\<close>

lemma select_items_entries:
  assumes "i \<in> set (select_items voucherTypeName objView voucher)"
  shows "\<exists>el \<in> set (getAll [str ''ALLINVENTORYENTRIES.LIST''] voucher)
              \<union> set (getAll [str ''INVENTORYENTRIESIN.LIST''] voucher)
              \<union> set (getAll [str ''INVENTORYENTRIESOUT.LIST''] voucher). i = parse_entry el"
  using assms
  by (auto simp: select_items_def Let_def parseItemsFromList_def split: if_splits)

lemma assign_sNo_fields:
  assumes "i \<in> set (assign_sNo its)"
  shows "\<exists>j \<in> set its. amount i = amount j \<and> rate i = rate j"
  using assms by (auto simp: assign_sNo_def in_set_enumerate_eq)

lemma subtotal_extract_invoice:
  "subtotal (totals (extract_invoice toUpperCase xmlDoc voucher))
   = toFixed (sum_amounts (items (extract_invoice toUpperCase xmlDoc voucher))) 2"
  by (simp add: extract_invoice_def Let_def)

lemma parseFloat_small:
  "parseFloat (str ''0.004'') = Fin (1152921504606847 / 288230376151711744)"
  unfolding number_defs by (simp add: number_eval)

lemma toFixed_small:
  "toFixed (Fin (1152921504606847 / 288230376151711744)) 2 = str ''0.00''"
  "toFixed (Fin (1152921504606847 / 144115188075855872)) 2 = str ''0.01''"
  unfolding number_defs by (simp_all add: number_eval)

lemma jsadd_small:
  "jsadd (Fin 0) (Fin (1152921504606847 / 288230376151711744))
   = Fin (1152921504606847 / 288230376151711744)"
  "jsadd (Fin (1152921504606847 / 288230376151711744)) (Fin (1152921504606847 / 288230376151711744))
   = Fin (1152921504606847 / 144115188075855872)"
  by (simp_all only: jsadd.simps, unfold binary64_unfold, simp_all add: bit_length_numeral)

lemma voucher_small_amounts_facts:
  "doc_querySelector [str ''VOUCHER''] voucher_small_amounts = Some voucher_small_amounts"
  "doc_querySelector [str ''parsererror''] voucher_small_amounts = None"
  "toUpperCase_ascii (get (str ''VOUCHERTYPENAME'') voucher_small_amounts) = str ''SALES''"
  "toUpperCase_ascii (get (str ''OBJVIEW'') voucher_small_amounts) = []"
  "getAll [str ''ALLINVENTORYENTRIES.LIST''] voucher_small_amounts = [entry_small, entry_small]"
  "getAll [str ''INVENTORYENTRIESOUT.LIST''] voucher_small_amounts = []"
  "getAll [str ''LEDGERENTRIES.LIST''] voucher_small_amounts = []"
  by (simp_all add: voucher_small_amounts_def entry_small_def doc_querySelector_def getAll_def
      querySelectorAll_def get_def querySelector_def toUpperCase_ascii_def
      trim_def is_whitespace_def str_def)

lemma entry_small_facts:
  "get (str ''AMOUNT'') entry_small = str ''0.004''"
  "get (str ''RATE'') entry_small = []"
  "get (str ''ACTUALQTY'') entry_small = []"
  "get (str ''STOCKITEMNAME'') entry_small = []"
  by (simp_all add: entry_small_def get_def querySelector_def querySelectorAll_def
      trim_def is_whitespace_def str_def)

lemma str_not_empty: "str ''0.004'' \<noteq> []"
  by (simp add: str_def)

lemma parse_entry_small:
  "parse_entry entry_small
   = \<lparr>item_name = [], qty = str ''0'', rate = str ''0.00'', amount = str ''0.00'', sNo = None\<rparr>"
  by (simp add: parse_entry_def entry_small_facts parseQty_def split_first_def trim_def
      parseFloat_empty parseFloat_or_0_def str_not_empty parseFloat_small toFixed_small toFixed_zero)

lemma parseTallyXML_voucher_small_amounts:
  "parseTallyXML (\<lambda>s. voucher_small_amounts) toUpperCase_ascii []
   = Some (extract_invoice toUpperCase_ascii voucher_small_amounts voucher_small_amounts)"
  by (simp add: parseTallyXML_def voucher_small_amounts_facts)

lemma sales_is_sales:
  "includes_js (str ''SALES'') (str ''SALES'')"
  "\<not> includes_js (str ''SALES'') (str ''SALES ORDER'')"
  "\<not> includes_js (str ''SALES'') (str ''STOCK JOURNAL'')"
  "\<not> includes_js [] (str ''CONSUMPTION VOUCHER VIEW'')"
  "str ''CONSUMPTION VOUCHER VIEW'' \<noteq> []"
  by (simp_all add: str_def)

lemma items_small_amounts:
  "items (extract_invoice toUpperCase_ascii voucher_small_amounts voucher_small_amounts)
   = [\<lparr>item_name = [], qty = str ''0'', rate = str ''0.00'', amount = str ''0.00'', sNo = Some 1\<rparr>,
      \<lparr>item_name = [], qty = str ''0'', rate = str ''0.00'', amount = str ''0.00'', sNo = Some 2\<rparr>]"
  by (simp add: items_extract_invoice select_items_def voucher_small_amounts_facts sales_is_sales
      parseItemsFromList_def parse_entry_small assign_sNo_def Let_def)

text \<open>
  C1, as stated, fails: a voucher with two entries of 0.004 has the subtotal \<open>0.00\<close>,
  the sum of the two amounts after each was rounded to \<open>0.00\<close>; the raw amounts summed
  first and formatted afterwards give \<open>0.01\<close>.
\<close>

theorem subtotal_counterexample:
  "parseTallyXML (\<lambda>s. voucher_small_amounts) toUpperCase_ascii [] \<noteq> None
   \<and> subtotal (totals (the (parseTallyXML (\<lambda>s. voucher_small_amounts) toUpperCase_ascii [])))
     = str ''0.00''
   \<and> getAll [str ''ALLINVENTORYENTRIES.LIST''] voucher_small_amounts = [entry_small, entry_small]
   \<and> subtotal_of_raw_amounts [entry_small, entry_small] = str ''0.01''"
proof -
  have "subtotal (totals (extract_invoice toUpperCase_ascii voucher_small_amounts
                            voucher_small_amounts)) = str ''0.00''"
    unfolding subtotal_extract_invoice items_small_amounts
    by (simp add: sum_amounts_def parseFloat_zero_text toFixed_zero)
  moreover have "subtotal_of_raw_amounts [entry_small, entry_small] = str ''0.01''"
    by (simp add: subtotal_of_raw_amounts_def raw_amount_def entry_small_facts parseFloat_or_0_def
        str_not_empty parseFloat_small jsadd_small toFixed_small del: jsadd.simps)
  ultimately show ?thesis
    by (simp add: parseTallyXML_voucher_small_amounts voucher_small_amounts_facts)
qed

text \<open>
  C1, amended: for every extracted document, the subtotal is the sum of the item amounts
  as the items hold them, formatted to 2 fraction digits: every item amount is the
  absolute amount of its entry already rounded to 2 fraction digits, and the sum runs
  over these rounded strings, parsed back, in the order of the items.
\<close>

theorem subtotal_sums_rounded_amounts:
  assumes "parseTallyXML parseFromString toUpperCase xmlString = Some iv"
    and "doc_querySelector [str ''VOUCHER''] (parseFromString (remove_entity xmlString))
         = Some voucher"
  shows "subtotal (totals iv)
         = toFixed (foldl (\<lambda>sum i. jsadd sum (parseFloat (amount i))) (Fin 0) (items iv)) 2
         \<and> (\<forall>i \<in> set (items iv).
              \<exists>el \<in> set (getAll [str ''ALLINVENTORYENTRIES.LIST''] voucher)
                      \<union> set (getAll [str ''INVENTORYENTRIESIN.LIST''] voucher)
                      \<union> set (getAll [str ''INVENTORYENTRIESOUT.LIST''] voucher).
                amount i = toFixed (Math_abs (parseFloat_or_0 (get (str ''AMOUNT'') el))) 2)"
proof -
  have iv: "iv = extract_invoice toUpperCase (parseFromString (remove_entity xmlString)) voucher"
    using assms by (rule extract_invoice_of_result)
  have "\<exists>el \<in> set (getAll [str ''ALLINVENTORYENTRIES.LIST''] voucher)
                      \<union> set (getAll [str ''INVENTORYENTRIESIN.LIST''] voucher)
                      \<union> set (getAll [str ''INVENTORYENTRIESOUT.LIST''] voucher).
                amount i = toFixed (Math_abs (parseFloat_or_0 (get (str ''AMOUNT'') el))) 2"
    if "i \<in> set (items iv)" for i
  proof -
    from that obtain j where j: "j \<in> set (select_items
        (toUpperCase (get (str ''VOUCHERTYPENAME'') voucher))
        (toUpperCase (get (str ''OBJVIEW'') voucher)) voucher)" "amount i = amount j"
      unfolding iv items_extract_invoice using assign_sNo_fields by blast
    from select_items_entries [OF j(1)] obtain el where
      "el \<in> set (getAll [str ''ALLINVENTORYENTRIES.LIST''] voucher)
              \<union> set (getAll [str ''INVENTORYENTRIESIN.LIST''] voucher)
              \<union> set (getAll [str ''INVENTORYENTRIESOUT.LIST''] voucher)" "j = parse_entry el"
      by blast
    then show ?thesis using j(2) by (auto simp: parse_entry_def)
  qed
  moreover have "subtotal (totals iv)
         = toFixed (foldl (\<lambda>sum i. jsadd sum (parseFloat (amount i))) (Fin 0) (items iv)) 2"
    unfolding iv subtotal_extract_invoice sum_amounts_def ..
  ultimately show ?thesis by blast
qed

lemma parseFloat_plain:
  "parseFloat (str ''25.00'') = Fin 25"
  "parseFloat (str ''-250.00'') = Fin (- 250)"
  "parseFloat (str ''250.00'') = Fin 250"
  unfolding number_defs by (simp_all add: number_eval)

lemma toFixed_plain:
  "toFixed (Fin 25) 2 = str ''25.00''"
  "toFixed (Fin 250) 2 = str ''250.00''"
  unfolding number_defs by (simp_all add: number_eval)

lemma binary64_250: "binary64 250 = Fin 250"
  unfolding binary64_unfold by (simp add: bit_length_numeral)

lemma entry_plain_facts:
  "get (str ''AMOUNT'') entry_plain = str ''-250.00''"
  "get (str ''RATE'') entry_plain = str ''25.00/NOS''"
  "get (str ''ACTUALQTY'') entry_plain = []"
  "get (str ''STOCKITEMNAME'') entry_plain = []"
  "split_first 47 (str ''25.00/NOS'') = str ''25.00''"
  "str ''-250.00'' \<noteq> []" "str ''25.00'' \<noteq> []" "split_first 32 [] = []"
  by (simp_all add: entry_plain_def get_def querySelector_def querySelectorAll_def
      split_first_def trim_def is_whitespace_def str_def)

lemma parse_entry_plain:
  "parse_entry entry_plain
   = \<lparr>item_name = [], qty = str ''0'', rate = str ''25.00'', amount = str ''250.00'', sNo = None\<rparr>"
  by (simp add: parse_entry_def entry_plain_facts parseQty_def trim_def
      parseFloat_empty parseFloat_or_0_def parseFloat_plain toFixed_plain)

theorem subtotal_sums_rounded_amounts_witness:
  "subtotal (totals (the (parseTallyXML (\<lambda>s. voucher_plain) toUpperCase_ascii [])))
   = str ''250.00''"
proof -
  have q: "parseTallyXML (\<lambda>s. voucher_plain) toUpperCase_ascii []
           = Some (extract_invoice toUpperCase_ascii voucher_plain voucher_plain)"
    by (simp add: parseTallyXML_def voucher_plain_facts)
  have "items (extract_invoice toUpperCase_ascii voucher_plain voucher_plain)
        = [\<lparr>item_name = [], qty = str ''0'', rate = str ''25.00'', amount = str ''250.00'',
            sNo = Some 1\<rparr>]"
    by (simp add: items_extract_invoice select_items_def voucher_plain_facts sales_is_sales
        parseItemsFromList_def parse_entry_plain assign_sNo_def Let_def)
  with subtotal_sums_rounded_amounts [OF q]
  have "subtotal (totals (extract_invoice toUpperCase_ascii voucher_plain voucher_plain))
        = str ''250.00''"
    by (simp add: voucher_plain_facts parseFloat_plain binary64_250 toFixed_plain)
  then show ?thesis by (simp add: q)
qed

section \<open>Properties of the command generator\<close>

text \<open>
  C10: called with an absent document, the generator returns the empty buffer: no
  initialize, feed or cut bytes, and no failure.
\<close>

theorem generateEscPosCommands_absent_document:
  "generateEscPosCommands load None s = Some []"
  by (simp add: generateEscPosCommands_def)

lemma receipt_commands_closing:
  "\<exists>cs. receipt_commands logoCommands x s = cs @ closing_section"
  unfolding receipt_commands_def
  by (metis append_assoc)

lemma bytes_closing_section:
  "\<exists>pre. concat (map bytes_of closing_section)
         = pre @ [0x0A, 0x0A, 0x0A, 0x0A, 0x0A, 0x1D, 0x56, 0x00]"
  by (simp add: closing_section_def LF_def GS_def)

lemma generateEscPosCommands_no_logo:
  "logoUrl s = [] \<Longrightarrow>
     generateEscPosCommands load (Some x) s
     = Some (concat (map bytes_of (receipt_commands [] x s)))"
  by (simp add: generateEscPosCommands_def)

text \<open>
  C6: every command stream generated for a document ends with five line feed bytes
  followed by the full cut \<open>GS V 0\<close>, whatever the Invoice, the settings and the logo.
\<close>

theorem generateEscPosCommands_trailer:
  "generateEscPosCommands load (Some x) s = Some bs \<Longrightarrow>
     \<exists>pre. bs = pre @ [0x0A, 0x0A, 0x0A, 0x0A, 0x0A, 0x1D, 0x56, 0x00]"
proof -
  assume a: "generateEscPosCommands load (Some x) s = Some bs"
  then obtain logoCommands where
    bs: "bs = concat (map bytes_of (receipt_commands logoCommands x s))"
    by (auto simp: generateEscPosCommands_def split: option.splits if_splits)
  obtain cs where cs: "receipt_commands logoCommands x s = cs @ closing_section"
    using receipt_commands_closing by blast
  obtain p where
    p: "concat (map bytes_of closing_section)
        = p @ [0x0A, 0x0A, 0x0A, 0x0A, 0x0A, 0x1D, 0x56, 0x00]"
    using bytes_closing_section by blast
  have "bs = (concat (map bytes_of cs) @ p) @ [0x0A, 0x0A, 0x0A, 0x0A, 0x0A, 0x1D, 0x56, 0x00]"
    by (simp add: bs cs p)
  then show ?thesis by blast
qed

theorem generateEscPosCommands_trailer_witness:
  "\<exists>pre. generateEscPosCommands (\<lambda>u. None) (Some invoice_widget) settings_plain
          = Some (pre @ [0x0A, 0x0A, 0x0A, 0x0A, 0x0A, 0x1D, 0x56, 0x00])"
proof -
  have "generateEscPosCommands (\<lambda>u. None) (Some invoice_widget) settings_plain
        = Some (concat (map bytes_of (receipt_commands [] invoice_widget settings_plain)))"
    by (rule generateEscPosCommands_no_logo) (simp add: settings_plain_def)
  from generateEscPosCommands_trailer [OF this] this show ?thesis by simp
qed

lemma length_repeat_space [simp]: "length (repeat (str '' '') n) = n"
  by (simp add: repeat_def str_def)

lemma repeat_space: "repeat (str '' '') n = replicate n 32"
  by (induction n) (simp_all add: repeat_def str_def)

text \<open>
  C8: the second row of an item is the text \<open>Qty: q @ Rs. r = Rs. a\<close> (the three numbers
  fixed to 2 fraction digits), padded on the left with spaces to 42 columns; a text of 42
  code units or more gets no padding and is printed whole. It is the last line but one of
  the item's block (an empty line follows), and it is printed for every item.
\<close>

theorem qtyRateAmountLine_right_aligned:
  "qtyRateAmountText it
     = str ''Qty: '' @ toFixed (parseFloat (qty it)) 2 @ str '' @ Rs. ''
       @ toFixed (parseFloat (rate it)) 2 @ str '' = Rs. '' @ toFixed (parseFloat (amount it)) 2
   \<and> qtyRateAmountLine it
       = replicate (42 - length (qtyRateAmountText it)) 32 @ qtyRateAmountText it
   \<and> length (qtyRateAmountLine it) = max 42 (length (qtyRateAmountText it))
   \<and> (42 \<le> length (qtyRateAmountText it) \<longrightarrow> qtyRateAmountLine it = qtyRateAmountText it)
   \<and> (\<exists>row1. item_commands it = row1 @ [PrintLine (qtyRateAmountLine it), PrintLine []])
   \<and> (\<forall>x. it \<in> set (items x) \<longrightarrow> PrintLine (qtyRateAmountLine it) \<in> set (items_section x))"
proof -
  have a: "qtyRateAmountLine it
       = replicate (42 - length (qtyRateAmountText it)) 32 @ qtyRateAmountText it"
    by (simp add: qtyRateAmountLine_def TOTAL_RECEIPT_WIDTH_def repeat_space)
  have b: "\<exists>row1. item_commands it = row1 @ [PrintLine (qtyRateAmountLine it), PrintLine []]"
    unfolding item_commands_def by (metis append_assoc)
  have c: "PrintLine (qtyRateAmountLine it) \<in> set (items_section x)" if "it \<in> set (items x)" for x
  proof -
    from b have "PrintLine (qtyRateAmountLine it) \<in> set (item_commands it)" by auto
    with that have "PrintLine (qtyRateAmountLine it) \<in> set (concat (map item_commands (items x)))"
      by auto
    moreover from that have "0 < length (items x)" by (cases "items x") auto
    ultimately show ?thesis by (simp add: items_section_def)
  qed
  show ?thesis using a b c by (auto simp: qtyRateAmountText_def)
qed

lemma qtyRateAmountText_item_widget:
  "qtyRateAmountText item_widget = str ''Qty: 10.00 @ Rs. 25.00 = Rs. 250.00''"
  unfolding qtyRateAmountText_def item_widget_def number_defs by (simp add: number_eval)

theorem qtyRateAmountLine_right_aligned_witness:
  "qtyRateAmountLine item_widget = str ''       Qty: 10.00 @ Rs. 25.00 = Rs. 250.00''
   \<and> length (qtyRateAmountLine item_widget) = 42
   \<and> PrintLine (qtyRateAmountLine item_widget) \<in> set (items_section invoice_widget)"
proof -
  let ?t = "qtyRateAmountText item_widget"
  note th = qtyRateAmountLine_right_aligned [of item_widget]
  have m: "item_widget \<in> set (items invoice_widget)" by (simp add: invoice_widget_def)
  have len: "length ?t = 35" by (simp add: qtyRateAmountText_item_widget str_def)
  from th have "qtyRateAmountLine item_widget = replicate (42 - length ?t) 32 @ ?t" by blast
  then have 1: "qtyRateAmountLine item_widget = str ''       Qty: 10.00 @ Rs. 25.00 = Rs. 250.00''"
    unfolding len by (simp add: qtyRateAmountText_item_widget str_def eval_nat_numeral)
  from th m have 2: "PrintLine (qtyRateAmountLine item_widget) \<in> set (items_section invoice_widget)"
    by blast
  from 1 have 3: "length (qtyRateAmountLine item_widget) = 42" by (simp add: str_def)
  from 1 2 3 show ?thesis by blast
qed

lemma totals_label_of_simps:
  "totals_label_of (PrintLine (str ''Sub Total: '' @ t)) = Some Subtotal_line"
  "totals_label_of (PrintLine (str ''CGST: '' @ t)) = Some CGST_line"
  "totals_label_of (PrintLine (str ''SGST: '' @ t)) = Some SGST_line"
  "totals_label_of (PrintLine (str ''IGST: '' @ t)) = Some IGST_line"
  "totals_label_of (PrintLine (str ''TOTAL: Rs. '' @ t)) = Some Total_line"
  "totals_label_of (SetBold b) = None"
  by (simp_all add: totals_label_of_def str_def)

lemma totals_section_in_receipt:
  "\<exists>pre post. receipt_commands logoCommands x s
      = pre @ [SetAlignment (str ''right'')] @ totals_lines x @ post"
proof -
  have "receipt_commands logoCommands x s
        = ([Push [ESC, 0x40]] @ logo_section logoCommands s @ company_header x s
           @ heading_section x s @ order_section x s @ party_section x @ items_header s
           @ items_section x @ [printSeparator s])
          @ [SetAlignment (str ''right'')] @ totals_lines x
          @ ([PrintLine []] @ amount_in_words_section x @ narration_section x s
             @ terms_section x s @ signatory_section x @ closing_section)"
    by (simp add: receipt_commands_def totals_section_def)
  then show ?thesis by blast
qed

text \<open>
  C4: among the lines of the totals section, the labelled ones come in the order
  Subtotal, CGST, SGST, IGST, Total; the CGST line (and likewise SGST, IGST) is there
  exactly when \<open>parseFloat\<close> of that total is greater than zero; the Total line stands
  between bold on and bold off; and the section is part of every receipt, after the
  switch to right alignment.
\<close>

theorem totals_lines_order:
  "List.map_filter totals_label_of (totals_lines x)
     = [Subtotal_line]
       @ (if jslt (Fin 0) (parseFloat (cgst (totals x))) then [CGST_line] else [])
       @ (if jslt (Fin 0) (parseFloat (sgst (totals x))) then [SGST_line] else [])
       @ (if jslt (Fin 0) (parseFloat (igst (totals x))) then [IGST_line] else [])
       @ [Total_line]
   \<and> (PrintLine (str ''CGST: '' @ cgst (totals x)) \<in> set (totals_lines x)
        \<longleftrightarrow> jslt (Fin 0) (parseFloat (cgst (totals x))))
   \<and> (PrintLine (str ''SGST: '' @ sgst (totals x)) \<in> set (totals_lines x)
        \<longleftrightarrow> jslt (Fin 0) (parseFloat (sgst (totals x))))
   \<and> (PrintLine (str ''IGST: '' @ igst (totals x)) \<in> set (totals_lines x)
        \<longleftrightarrow> jslt (Fin 0) (parseFloat (igst (totals x))))
   \<and> (\<exists>before total_text. totals_lines x
          = before @ [SetBold True, PrintLine (str ''TOTAL: Rs. '' @ total_text), SetBold False])
   \<and> (\<exists>pre post. receipt_commands logoCommands x s
          = pre @ [SetAlignment (str ''right'')] @ totals_lines x @ post)"
proof -
  have 1: "List.map_filter totals_label_of (totals_lines x)
     = [Subtotal_line]
       @ (if jslt (Fin 0) (parseFloat (cgst (totals x))) then [CGST_line] else [])
       @ (if jslt (Fin 0) (parseFloat (sgst (totals x))) then [SGST_line] else [])
       @ (if jslt (Fin 0) (parseFloat (igst (totals x))) then [IGST_line] else [])
       @ [Total_line]"
    by (simp add: totals_lines_def List.map_filter_def totals_label_of_simps)
  have 2: "PrintLine (str ''CGST: '' @ cgst (totals x)) \<in> set (totals_lines x)
        \<longleftrightarrow> jslt (Fin 0) (parseFloat (cgst (totals x)))"
    by (simp add: totals_lines_def str_def)
  have 3: "PrintLine (str ''SGST: '' @ sgst (totals x)) \<in> set (totals_lines x)
        \<longleftrightarrow> jslt (Fin 0) (parseFloat (sgst (totals x)))"
    by (simp add: totals_lines_def str_def)
  have 4: "PrintLine (str ''IGST: '' @ igst (totals x)) \<in> set (totals_lines x)
        \<longleftrightarrow> jslt (Fin 0) (parseFloat (igst (totals x)))"
    by (simp add: totals_lines_def str_def)
  have 5: "\<exists>before total_text. totals_lines x
          = before @ [SetBold True, PrintLine (str ''TOTAL: Rs. '' @ total_text), SetBold False]"
    unfolding totals_lines_def by (metis append_assoc)
  from 1 2 3 4 5 totals_section_in_receipt [of logoCommands x s] show ?thesis by blast
qed

theorem totals_lines_order_witness:
  "List.map_filter totals_label_of (totals_lines invoice_igst)
     = [Subtotal_line, IGST_line, Total_line]
   \<and> PrintLine (str ''IGST: 450.00'') \<in> set (totals_lines invoice_igst)
   \<and> PrintLine (str ''CGST: 0.00'') \<notin> set (totals_lines invoice_igst)
   \<and> PrintLine (str ''SGST: 0.00'') \<notin> set (totals_lines invoice_igst)"
proof -
  have t: "cgst (totals invoice_igst) = str ''0.00''" "sgst (totals invoice_igst) = str ''0.00''"
    "igst (totals invoice_igst) = str ''450.00''"
    by (simp_all add: invoice_igst_def)
  have s: "str ''IGST: '' @ str ''450.00'' = str ''IGST: 450.00''"
    "str ''CGST: '' @ str ''0.00'' = str ''CGST: 0.00''"
    "str ''SGST: '' @ str ''0.00'' = str ''SGST: 0.00''"
    by (simp_all add: str_def)
  from totals_lines_order [of invoice_igst "[]" settings_plain] show ?thesis
    unfolding t parseFloat_zero_text parseFloat_450 s by simp
qed

lemma wrap_nil: "wrap_company_name [] = []" by (simp add: wrap_company_name.simps)

lemma wrap_step_space:
  "s \<noteq> [] \<Longrightarrow> lastIndexOf (take 14 s) 32 = Some i \<Longrightarrow> 0 < i \<Longrightarrow> length (take 14 s) = 14 \<Longrightarrow>
   wrap_company_name s = trim (take i (take 14 s)) # wrap_company_name (drop (i + 1) s)"
  by (subst wrap_company_name.simps) (simp add: DOUBLE_SIZE_CHARS_PER_LINE_def)

lemma wrap_step_hard:
  "s \<noteq> [] \<Longrightarrow> (case lastIndexOf (take 14 s) 32 of None \<Rightarrow> True | Some i \<Rightarrow> \<not> (0 < i \<and> length (take 14 s) = 14)) \<Longrightarrow>
   wrap_company_name s = trim (take 14 s) # wrap_company_name (drop 14 s)"
  by (subst wrap_company_name.simps) (auto simp add: DOUBLE_SIZE_CHARS_PER_LINE_def split: option.splits)

lemma length_trim_le: "length (trim u) \<le> length u"
  unfolding trim_def
  by (metis length_rev length_dropWhile_le le_trans)

lemma wrap_company_name_length:
  "l \<in> set (wrap_company_name s) \<Longrightarrow> length l \<le> 14"
proof (induction s rule: wrap_company_name.induct)
  case (1 s)
  note IH = "1.IH" [unfolded DOUBLE_SIZE_CHARS_PER_LINE_def]
  show ?case
  proof (cases "s = []")
    case True
    with "1.prems" show ?thesis by (simp add: wrap_nil)
  next
    case False
    have ll: "length (take 14 s) \<le> 14" by simp
    show ?thesis
    proof (cases "lastIndexOf (take 14 s) 32")
      case None
      then have "wrap_company_name s = trim (take 14 s) # wrap_company_name (drop 14 s)"
        using False by (intro wrap_step_hard) simp_all
      with "1.prems" have "l = trim (take 14 s) \<or> l \<in> set (wrap_company_name (drop 14 s))"
        by simp
      then show ?thesis
        using le_trans [OF length_trim_le ll] IH(1) [OF False refl None] by blast
    next
      case (Some i)
      show ?thesis
      proof (cases "0 < i \<and> length (take 14 s) = 14")
        case True
        then have "wrap_company_name s
                   = trim (take i (take 14 s)) # wrap_company_name (drop (i + 1) s)"
          using False Some by (intro wrap_step_space) simp_all
        with "1.prems" have
          "l = trim (take i (take 14 s)) \<or> l \<in> set (wrap_company_name (drop (i + 1) s))"
          by simp
        moreover have "length (take i (take 14 s)) \<le> 14" by simp
        ultimately show ?thesis
          using le_trans [OF length_trim_le] IH(2) [OF False refl Some True] by blast
      next
        case F: False
        then have "wrap_company_name s = trim (take 14 s) # wrap_company_name (drop 14 s)"
          using False Some by (intro wrap_step_hard) simp_all
        with "1.prems" have "l = trim (take 14 s) \<or> l \<in> set (wrap_company_name (drop 14 s))"
          by simp
        then show ?thesis
          using le_trans [OF length_trim_le ll] IH(3) [OF False refl Some F] by blast
      qed
    qed
  qed
qed

lemma wrap_company_name_spec_example:
  "wrap_company_name (str ''SUPERLONG COMPANY NAME PRIVATE LIMITED'')
   = [str ''SUPERLONG'', str ''COMPANY NAME'', str ''PRIVATE'', str ''LIMITED'']"
  unfolding str_def
  apply (subst wrap_step_space [where i = 9], simp, simp, simp, simp)
  apply (simp del: wrap_company_name.simps)
  apply (subst wrap_step_space [where i = 12], simp, simp, simp, simp)
  apply (simp del: wrap_company_name.simps)
  apply (subst wrap_step_space [where i = 7], simp, simp, simp, simp)
  apply (simp del: wrap_company_name.simps)
  apply (subst wrap_step_hard, simp, simp)
  apply (simp add: wrap_nil trim_def is_whitespace_def)
  done

text \<open>
  C5: every line of the wrapped company name has at most 14 code units
  (\<open>wrap_company_name_length\<close>), and the name of the specification wraps at its spaces
  (\<open>wrap_company_name_spec_example\<close>). But a word that fits the budget can be split:
  after a hard break the next chunk starts with the space, its only space is at index 0,
  and the 14 letter word behind it is cut after 13 letters.
\<close>

theorem wrap_company_name_splits_fitting_word:
  "wrap_company_name (str ''TRANSPORTATION ADMINISTRATION'')
   = [str ''TRANSPORTATION'', str ''ADMINISTRATIO'', str ''N'']"
  unfolding str_def
  apply (subst wrap_step_hard, simp, simp)
  apply (subst wrap_step_hard, simp, simp)
  apply (subst wrap_step_hard, simp, simp)
  apply (simp add: wrap_nil trim_def is_whitespace_def)
  done

subsection \<open>The raster image\<close>



lemma length_plot [simp]: "length (plot d w y x bm) = length bm"
  by (simp add: plot_def Let_def)

lemma length_fold_plot [simp]: "length (fold (plot d w y) xs bm) = length bm"
  by (induction xs arbitrary: bm) simp_all

lemma length_fold_rows [simp]:
  "length (fold (\<lambda>y bm. fold (plot d w y) xs bm) ys bm) = length bm"
  by (induction ys arbitrary: bm) simp_all











lemma printImage_returns:
  assumes "imageUrl \<noteq> []" and "load imageUrl = Some img"
    and "Math_round (jsdiv (Fin (of_nat w))
           (jsdiv (Fin (of_nat (img_width img))) (Fin (of_nat (img_height img)))))
         = Fin (of_nat h)"
    and "1 \<le> h" and "1 \<le> w"
  shows "printImage load imageUrl w = Some (raster_commands (drawn img w h) w h)"
  using assms by (simp add: printImage_def Let_def)



lemma luminance_weights:
  "binary64 (299 / 1000) = Fin (5386305154335113 / 18014398509481984)"
  "binary64 (587 / 1000) = Fin (2643612981266481 / 4503599627370496)"
  "binary64 (114 / 1000) = Fin (8214565720323785 / 72057594037927936)"
  "binary64 (57 / 500) = Fin (8214565720323785 / 72057594037927936)"
  unfolding binary64_unfold by (simp_all add: bit_length_numeral)


lemma luminance_products:
  "jsmul (Fin (5386305154335113 / 18014398509481984)) (Fin 255) = Fin (5365264899825991 / 70368744177664)"
  "jsmul (Fin (2643612981266481 / 4503599627370496)) (Fin 255) = Fin (2633286368058409 / 17592186044416)"
  "jsmul (Fin (8214565720323785 / 72057594037927936)) (Fin 255) = Fin (4091238786489385 / 140737488355328)"
  "jsmul (Fin (5386305154335113 / 18014398509481984)) (Fin 128) = Fin (5386305154335113 / 140737488355328)"
  "jsmul (Fin (2643612981266481 / 4503599627370496)) (Fin 128) = Fin (2643612981266481 / 35184372088832)"
  "jsmul (Fin (8214565720323785 / 72057594037927936)) (Fin 128) = Fin (8214565720323785 / 562949953421312)"
  by (simp_all only: jsmul.simps, unfold binary64_unfold, simp_all add: bit_length_numeral)

lemma luminance_sums:
  "jsadd (Fin (5365264899825991 / 70368744177664)) (Fin (2633286368058409 / 17592186044416)) = Fin (3974602593014907 / 17592186044416)"
  "jsadd (Fin (3974602593014907 / 17592186044416)) (Fin (4091238786489385 / 140737488355328)) = Fin 255"
  "jsadd (Fin (5386305154335113 / 140737488355328)) (Fin (2643612981266481 / 35184372088832)) = Fin (3990189269850259 / 35184372088832)"
  "jsadd (Fin (3990189269850259 / 35184372088832)) (Fin (8214565720323785 / 562949953421312)) = Fin (9007199254740991 / 70368744177664)"
  "jsadd (Fin 0) (Fin (2633286368058409 / 17592186044416)) = Fin (2633286368058409 / 17592186044416)"
  "jsadd (Fin (2633286368058409 / 17592186044416)) (Fin 0) = Fin (2633286368058409 / 17592186044416)"
  by (simp_all only: jsadd.simps, unfold binary64_unfold, simp_all add: bit_length_numeral)

lemma jsmul_zero: "jsmul (Fin a) (Fin 0) = Fin 0"
  by simp

lemma jsadd_zero: "jsadd (Fin 0) (Fin 0) = Fin 0"
  by simp

lemma luminance_black:
  "jsadd (jsadd (jsmul (binary64 (299 / 1000)) (Fin 0)) (jsmul (binary64 (587 / 1000)) (Fin 0)))
         (jsmul (binary64 (114 / 1000)) (Fin 0)) = Fin 0"
  by (simp only: luminance_weights jsmul_zero jsadd_zero)

lemma luminance_white:
  "jsadd (jsadd (jsmul (binary64 (299 / 1000)) (Fin 255)) (jsmul (binary64 (587 / 1000)) (Fin 255)))
         (jsmul (binary64 (114 / 1000)) (Fin 255)) = Fin 255"
  by (simp only: luminance_weights luminance_products luminance_sums jsmul_zero jsadd_zero)

lemma luminance_grey:
  "jsadd (jsadd (jsmul (binary64 (299 / 1000)) (Fin 128)) (jsmul (binary64 (587 / 1000)) (Fin 128)))
         (jsmul (binary64 (114 / 1000)) (Fin 128)) = Fin (9007199254740991 / 70368744177664)"
  by (simp only: luminance_weights luminance_products luminance_sums jsmul_zero jsadd_zero)

lemma luminance_green:
  "jsadd (jsadd (jsmul (binary64 (299 / 1000)) (Fin 0)) (jsmul (binary64 (587 / 1000)) (Fin 255)))
         (jsmul (binary64 (114 / 1000)) (Fin 0)) = Fin (2633286368058409 / 17592186044416)"
  by (simp only: luminance_weights luminance_products luminance_sums jsmul_zero jsadd_zero)












end
